theory Spec2Isabelle
  imports Main
begin

section \<open>Values of the run-time\<close>

text \<open>
  A string is the list of its code units; no property below depends on how many
  different code units there are.
  Instants are milliseconds since the epoch, as \<^verbatim>\<open>Date.getTime()\<close> gives them.
  A JavaScript \<^verbatim>\<open>Date\<close> holds either an instant of at most 8.64e15 ms in
  absolute value or no instant at all (an invalid date): \<^verbatim>\<open>new Date(t)\<close> never throws.
  All numbers below are integers. For a clock reading \<open>now \<ge> 0\<close> every intermediate
  product that still gives a valid date is smaller than 2^53, so the doubles of the
  run-time compute it exactly, and a product that has lost precision is already far
  beyond the range of dates.
\<close>

type_synonym time = int

datatype jsdate = Date time | InvalidDate

definition maxTime :: int where
  "maxTime = 8640000000000000"

definition newDate :: "int \<Rightarrow> jsdate" where
  "newDate t = (if - maxTime \<le> t \<and> t \<le> maxTime then Date t else InvalidDate)"

text \<open>\<^verbatim>\<open>!x\<close> on a value that is a string or undefined: undefined and the empty
  string are falsy.\<close>

fun truthy :: "string option \<Rightarrow> bool" where
  "truthy None = False"
| "truthy (Some s) = (s \<noteq> [])"

text \<open>A value of a parsed JSON body, or \<open>VUndefined\<close> for a property the body does
  not have. The body is not validated against the request types, so a property can hold
  any JSON value. The handlers test a number only for being zero (a number that is not
  an integer counts as any integer other than zero), and an array or an object only for
  not being a string: \<open>VObject\<close> stands for both. \<open>truthyV\<close> is \<^verbatim>\<open>!!x\<close>.\<close>

datatype jsvalue = VUndefined | VNull | VBool bool | VNumber int | VString string | VObject

fun truthyV :: "jsvalue \<Rightarrow> bool" where
  "truthyV VUndefined = False"
| "truthyV VNull = False"
| "truthyV (VBool b) = b"
| "truthyV (VNumber n) = (n \<noteq> 0)"
| "truthyV (VString s) = (s \<noteq> [])"
| "truthyV VObject = True"

datatype failure =
    InvalidExpirationFormat
  | InvalidTimeUnit
  | InvalidAccessToken
  | InvalidRefreshToken
  | JwtSignError
  | JwtMalformed
  | JwtInvalidSignature
  | JwtExpired
  | UniqueConstraintViolation
  | ForeignKeyViolation
  | InvalidDateValue
  | InvalidArgument
  | IllegalArguments

section \<open>Decimal numerals\<close>

definition isDigit :: "char \<Rightarrow> bool" where
  "isDigit c = (48 \<le> (of_char c :: nat) \<and> (of_char c :: nat) \<le> 57)"

definition digitVal :: "char \<Rightarrow> nat" where
  "digitVal c = of_char c - 48"

definition digitChar :: "nat \<Rightarrow> char" where
  "digitChar d = char_of (48 + d)"

text \<open>\<^verbatim>\<open>parseInt\<close> on a string of decimal digits.\<close>

definition parseNat :: "string \<Rightarrow> nat" where
  "parseNat ds = foldl (\<lambda>a c. 10 * a + digitVal c) 0 ds"

definition parseInt :: "string \<Rightarrow> int" where
  "parseInt ds = int (parseNat ds)"

section \<open>JwtUtils: durations and headers\<close>

text \<open>
  The regular expression \<^verbatim>\<open>/^(\d+)([smhd])$/\<close>: the whole string is one or more
  ASCII digits followed by exactly one of the letters s, m, h, d. The result is the two
  groups.
\<close>

definition matchDuration :: "string \<Rightarrow> (string \<times> char) option" where
  "matchDuration s =
     (if s = [] then None
      else if butlast s \<noteq> [] \<and> list_all isDigit (butlast s) \<and> last s \<in> set ''smhd''
           then Some (butlast s, last s)
           else None)"

definition getTokenExpiration :: "time \<Rightarrow> string \<Rightarrow> failure + jsdate" where
  "getTokenExpiration now expiresIn =
     (case matchDuration expiresIn of
        None \<Rightarrow> Inl InvalidExpirationFormat
      | Some (digits, unit) \<Rightarrow>
          (let v = parseInt digits in
           if unit = CHR ''s'' then Inr (newDate (now + v * 1000))
           else if unit = CHR ''m'' then Inr (newDate (now + v * 60 * 1000))
           else if unit = CHR ''h'' then Inr (newDate (now + v * 60 * 60 * 1000))
           else if unit = CHR ''d'' then Inr (newDate (now + v * 24 * 60 * 60 * 1000))
           else Inl InvalidTimeUnit))"

text \<open>\<^verbatim>\<open>authHeader.startsWith("Bearer ")\<close> and \<^verbatim>\<open>authHeader.substring(7)\<close>.\<close>

definition startsWith :: "string \<Rightarrow> string \<Rightarrow> bool" where
  "startsWith s p = (take (length p) s = p)"

definition extractTokenFromHeader :: "string option \<Rightarrow> string option" where
  "extractTokenFromHeader authHeader =
     (if \<not> truthy authHeader \<or> \<not> startsWith (the authHeader) ''Bearer '' then None
      else Some (drop 7 (the authHeader)))"

text \<open>The strings the duration pattern describes, and the offset each stands for.\<close>

definition unitMillis :: "char \<Rightarrow> int" where
  "unitMillis u =
     (if u = CHR ''s'' then 1000
      else if u = CHR ''m'' then 60 * 1000
      else if u = CHR ''h'' then 3600 * 1000
      else 86400 * 1000)"

definition durationShape :: "string \<Rightarrow> bool" where
  "durationShape s =
     (\<exists>ds u. s = ds @ [u] \<and> ds \<noteq> [] \<and> list_all isDigit ds \<and> u \<in> set ''smhd'')"

section \<open>The token library\<close>

text \<open>
  \<^verbatim>\<open>jsonwebtoken\<close>, \<^verbatim>\<open>ms\<close> and \<^verbatim>\<open>bcryptjs\<close> are dependencies, not code
  of the repository. The duration parser of the token library and the two password
  functions are parameters of the model. Signing and verifying are modelled by an ideal
  message authentication code: a token is the framed list of the key it was signed with,
  the two time stamps (in seconds) and the payload's fields, so that a token verifies
  under a key only if it was made with that key. Verification fails on a string that is
  no token, on a missing key, on another key, and from the second \<open>exp\<close> on.
\<close>

record libs =
  ms :: "string \<Rightarrow> int option"
  bcryptHash :: "string \<Rightarrow> nat \<Rightarrow> string \<Rightarrow> string"
  bcryptCompare :: "string \<Rightarrow> string \<Rightarrow> bool"

text \<open>\<^verbatim>\<open>bcrypt.hash(s, rounds)\<close> and \<^verbatim>\<open>bcrypt.compare(s, hash)\<close> reject an
  argument \<open>s\<close> that is not a string ("Illegal arguments"); the awaiting handler then
  throws.\<close>

definition bcrypt_hash :: "libs \<Rightarrow> jsvalue \<Rightarrow> nat \<Rightarrow> string \<Rightarrow> failure + string" where
  "bcrypt_hash L s rounds slt =
     (case s of VString pw \<Rightarrow> Inr (bcryptHash L pw rounds slt) | _ \<Rightarrow> Inl IllegalArguments)"

definition bcrypt_compare :: "libs \<Rightarrow> jsvalue \<Rightarrow> string \<Rightarrow> failure + bool" where
  "bcrypt_compare L s hash =
     (case s of VString pw \<Rightarrow> Inr (bcryptCompare L pw hash) | _ \<Rightarrow> Inl IllegalArguments)"

function showNat :: "nat \<Rightarrow> string" where
  "showNat n = (if n < 10 then [digitChar n] else showNat (n div 10) @ [digitChar (n mod 10)])"
  by pat_completeness auto
termination
  by (relation "measure (\<lambda>n. n)") auto

declare showNat.simps [simp del]

definition showInt :: "int \<Rightarrow> string" where
  "showInt i = (if i < 0 then CHR ''-'' # showNat (nat (- i)) else showNat (nat i))"

definition isNumeral :: "string \<Rightarrow> bool" where
  "isNumeral s = (s \<noteq> [] \<and> list_all isDigit s)"

definition readInt :: "string \<Rightarrow> int option" where
  "readInt s =
     (case s of
        [] \<Rightarrow> None
      | c # ds \<Rightarrow>
          if c = CHR ''-'' then (if isNumeral ds then Some (- parseInt ds) else None)
          else if isNumeral s then Some (parseInt s)
          else None)"

definition frame :: "string \<Rightarrow> string" where
  "frame s = showNat (length s) @ CHR '':'' # s"

definition unframe :: "string \<Rightarrow> (string \<times> string) option" where
  "unframe s =
     (let ds = takeWhile isDigit s in
      if ds = [] then None
      else case dropWhile isDigit s of
             [] \<Rightarrow> None
           | c # rest \<Rightarrow>
               if c = CHR '':'' \<and> parseNat ds \<le> length rest
               then Some (take (parseNat ds) rest, drop (parseNat ds) rest)
               else None)"

lemma unframe_shorter: "unframe s = Some (x, r) \<Longrightarrow> length r < length s"
proof -
  assume a: "unframe s = Some (x, r)"
  have len: "length s = length (takeWhile isDigit s) + length (dropWhile isDigit s)"
    by (metis length_append takeWhile_dropWhile_id)
  from a obtain c rest where d: "dropWhile isDigit s = c # rest"
    and r: "r = drop (parseNat (takeWhile isDigit s)) rest"
    by (auto simp: unframe_def Let_def split: if_splits list.splits)
  from len d r show ?thesis by simp
qed

function unframeAll :: "string \<Rightarrow> string list option" where
  "unframeAll s =
     (if s = [] then Some []
      else case unframe s of
             None \<Rightarrow> None
           | Some (x, r) \<Rightarrow> map_option ((#) x) (unframeAll r))"
  by pat_completeness auto
termination
  by (relation "measure length") (auto dest: unframe_shorter)

declare unframeAll.simps [simp del]

fun pairUp :: "string list \<Rightarrow> (string \<times> string) list option" where
  "pairUp [] = Some []"
| "pairUp [k] = None"
| "pairUp (k # v # r) = map_option ((#) (k, v)) (pairUp r)"

definition flatten :: "(string \<times> string) list \<Rightarrow> string list" where
  "flatten fs = concat (map (\<lambda>(k, v). [k, v]) fs)"

record jwt_claims =
  claims :: "(string \<times> string) list"
  iat :: int
  exp :: int

definition jwt_encode :: "string \<Rightarrow> jwt_claims \<Rightarrow> string" where
  "jwt_encode key c =
     concat (map frame (key # showInt (iat c) # showInt (exp c) # flatten (claims c)))"

definition jwt_decode :: "string \<Rightarrow> (string \<times> jwt_claims) option" where
  "jwt_decode tok =
     (case unframeAll tok of
        Some (key # i # e # rest) \<Rightarrow>
          (case (readInt i, readInt e, pairUp rest) of
             (Some a, Some b, Some fs) \<Rightarrow> Some (key, \<lparr>claims = fs, iat = a, exp = b\<rparr>)
           | _ \<Rightarrow> None)
      | _ \<Rightarrow> None)"

text \<open>\<^verbatim>\<open>jwt.sign(payload, secret, {expiresIn})\<close> at the clock reading \<open>now\<close>: it
  throws without a key and on a duration it cannot parse; \<open>iat\<close> is the clock in whole
  seconds and \<open>exp\<close> is \<open>iat\<close> plus the duration in whole seconds.\<close>

definition jwt_sign ::
  "libs \<Rightarrow> (string \<times> string) list \<Rightarrow> string option \<Rightarrow> string \<Rightarrow> time \<Rightarrow> failure + string" where
  "jwt_sign L payload secret expiresIn now =
     (if \<not> truthy secret then Inl JwtSignError
      else case ms L expiresIn of
             None \<Rightarrow> Inl JwtSignError
           | Some d \<Rightarrow>
               Inr (jwt_encode (the secret)
                      \<lparr>claims = payload, iat = now div 1000, exp = now div 1000 + d div 1000\<rparr>))"

text \<open>\<^verbatim>\<open>jwt.verify(token, secret)\<close> at the clock reading \<open>now\<close>.\<close>

definition jwt_verify :: "string \<Rightarrow> string option \<Rightarrow> time \<Rightarrow> failure + jwt_claims" where
  "jwt_verify tok secret now =
     (case jwt_decode tok of
        None \<Rightarrow> Inl JwtMalformed
      | Some (key, c) \<Rightarrow>
          if \<not> truthy secret then Inl JwtInvalidSignature
          else if key \<noteq> the secret then Inl JwtInvalidSignature
          else if exp c \<le> now div 1000 then Inl JwtExpired
          else Inr c)"

section \<open>JwtUtils: tokens\<close>

text \<open>The process environment the code reads; an unset variable is \<open>None\<close>. The
  environment is taken not to change while the process runs: the fields that are read
  when the class is loaded and the reads inside a request see the same values.\<close>

record env =
  JWT_ACCESS_SECRET :: "string option"
  JWT_REFRESH_SECRET :: "string option"
  JWT_ACCESS_EXPIRES_IN :: "string option"
  JWT_REFRESH_EXPIRES_IN :: "string option"
  NODE_ENV :: "string option"

text \<open>\<^verbatim>\<open>x || dflt\<close> on a string that may be undefined.\<close>

definition orElse :: "string option \<Rightarrow> string \<Rightarrow> string" where
  "orElse x dflt = (if truthy x then the x else dflt)"

definition accessSecret :: "env \<Rightarrow> string option" where
  "accessSecret E = JWT_ACCESS_SECRET E"

definition refreshSecret :: "env \<Rightarrow> string option" where
  "refreshSecret E = JWT_REFRESH_SECRET E"

definition accessExpiresIn :: "env \<Rightarrow> string" where
  "accessExpiresIn E = orElse (JWT_ACCESS_EXPIRES_IN E) ''15m''"

definition refreshExpiresIn :: "env \<Rightarrow> string" where
  "refreshExpiresIn E = orElse (JWT_REFRESH_EXPIRES_IN E) ''7d''"

text \<open>The payload \<^verbatim>\<open>{userId, email}\<close> is passed as its two fields.\<close>

definition generateAccessToken ::
  "libs \<Rightarrow> env \<Rightarrow> string \<Rightarrow> string \<Rightarrow> time \<Rightarrow> failure + string" where
  "generateAccessToken L E userId email now =
     jwt_sign L [(''userId'', userId), (''email'', email)] (accessSecret E) (accessExpiresIn E) now"

text \<open>The payload \<^verbatim>\<open>{userId, tokenId}\<close>.\<close>

definition generateRefreshToken ::
  "libs \<Rightarrow> env \<Rightarrow> string \<Rightarrow> string \<Rightarrow> time \<Rightarrow> failure + string" where
  "generateRefreshToken L E userId tokenId now =
     jwt_sign L [(''userId'', userId), (''tokenId'', tokenId)] (refreshSecret E) (refreshExpiresIn E) now"

definition verifyAccessToken :: "env \<Rightarrow> string \<Rightarrow> time \<Rightarrow> failure + jwt_claims" where
  "verifyAccessToken E token now =
     (case jwt_verify token (accessSecret E) now of
        Inl _ \<Rightarrow> Inl InvalidAccessToken
      | Inr c \<Rightarrow> Inr c)"

definition verifyRefreshToken :: "env \<Rightarrow> string \<Rightarrow> time \<Rightarrow> failure + jwt_claims" where
  "verifyRefreshToken E token now =
     (case jwt_verify token (refreshSecret E) now of
        Inl _ \<Rightarrow> Inl InvalidRefreshToken
      | Inr c \<Rightarrow> Inr c)"

section \<open>The store\<close>

text \<open>
  Modelled from the spec: the Prisma schema, which is not among the sources. Its two
  tables follow the specification's data model: a user row with a unique id and a unique
  email, and a refresh-token row with a unique token string, the id of its owner (a
  foreign key) and an expiry. Columns that the handlers neither read nor write are left
  out. A table is the list of its rows in the order of creation. The operations of the
  database client are modelled on these lists; a create that would break a unique
  column or the foreign key throws. The column \<^verbatim>\<open>id\<close> of a user is the field
  \<open>ident\<close>.
\<close>

record user =
  ident :: string
  email :: string
  password :: string
  firstName :: "string option"
  lastName :: "string option"
  isActive :: bool
  createdAt :: time
  updatedAt :: time

record refresh_token =
  token :: string
  userId :: string
  expiresAt :: time

record db =
  users :: "user list"
  refreshTokens :: "refresh_token list"

text \<open>What one request reads from outside: the clock, \<^verbatim>\<open>Math.random()\<close> as it
  prints, the salt of the password hash, and what the store generates for a new user
  row (its id and the default of the active flag).\<close>

record ctx =
  now :: time
  random :: string
  salt :: string
  newUserId :: string
  defaultActive :: bool

text \<open>\<^verbatim>\<open>prisma.user.findUnique({where: {email}})\<close>\<close>

definition user_findUnique :: "db \<Rightarrow> string \<Rightarrow> user option" where
  "user_findUnique d e = find (\<lambda>u. email u = e) (users d)"

definition user_findById :: "db \<Rightarrow> string \<Rightarrow> user option" where
  "user_findById d i = find (\<lambda>u. ident u = i) (users d)"

text \<open>\<^verbatim>\<open>prisma.user.create({data: {email, password, firstName, lastName}})\<close>\<close>

definition user_create ::
  "ctx \<Rightarrow> db \<Rightarrow> string \<Rightarrow> string \<Rightarrow> string option \<Rightarrow> string option \<Rightarrow> failure + user \<times> db" where
  "user_create C d e pw fn ln =
     (if user_findUnique d e \<noteq> None \<or> user_findById d (newUserId C) \<noteq> None
      then Inl UniqueConstraintViolation
      else (let u = \<lparr>ident = newUserId C, email = e, password = pw, firstName = fn,
                      lastName = ln, isActive = defaultActive C, createdAt = now C,
                      updatedAt = now C\<rparr>
            in Inr (u, d\<lparr>users := users d @ [u]\<rparr>)))"

text \<open>The same two operations on the values of a request body. The database client
  validates its arguments: an email that is not a string makes \<open>findUnique\<close> and
  \<open>create\<close> throw, and so does a display name that is neither a string nor null nor
  undefined.\<close>

definition user_findUnique_where :: "db \<Rightarrow> jsvalue \<Rightarrow> failure + user option" where
  "user_findUnique_where d v =
     (case v of VString e \<Rightarrow> Inr (user_findUnique d e) | _ \<Rightarrow> Inl InvalidArgument)"

definition optionalString :: "jsvalue \<Rightarrow> failure + string option" where
  "optionalString v =
     (case v of
        VUndefined \<Rightarrow> Inr None
      | VNull \<Rightarrow> Inr None
      | VString s \<Rightarrow> Inr (Some s)
      | _ \<Rightarrow> Inl InvalidArgument)"

definition user_create_data ::
  "ctx \<Rightarrow> db \<Rightarrow> jsvalue \<Rightarrow> string \<Rightarrow> jsvalue \<Rightarrow> jsvalue \<Rightarrow> failure + user \<times> db" where
  "user_create_data C d v pw fn ln =
     (case v of
        VString e \<Rightarrow>
          (case optionalString fn of
             Inl x \<Rightarrow> Inl x
           | Inr f \<Rightarrow>
               (case optionalString ln of
                  Inl x \<Rightarrow> Inl x
                | Inr l \<Rightarrow> user_create C d e pw f l))
      | _ \<Rightarrow> Inl InvalidArgument)"

text \<open>\<^verbatim>\<open>prisma.refreshToken.create({data: {token, userId, expiresAt}})\<close>: the client
  refuses an invalid date.\<close>

definition refreshToken_create :: "db \<Rightarrow> string \<Rightarrow> string \<Rightarrow> jsdate \<Rightarrow> failure + db" where
  "refreshToken_create d tok uid ex =
     (case ex of
        InvalidDate \<Rightarrow> Inl InvalidDateValue
      | Date t \<Rightarrow>
          if find (\<lambda>r. token r = tok) (refreshTokens d) \<noteq> None then Inl UniqueConstraintViolation
          else if user_findById d uid = None then Inl ForeignKeyViolation
          else Inr (d\<lparr>refreshTokens :=
                        refreshTokens d @ [\<lparr>token = tok, userId = uid, expiresAt = t\<rparr>]\<rparr>))"

text \<open>\<^verbatim>\<open>prisma.refreshToken.findUnique({where: {token}, include: {user: true}})\<close>:
  the row and its owner.\<close>

definition refreshToken_findUnique :: "db \<Rightarrow> string \<Rightarrow> (refresh_token \<times> user option) option" where
  "refreshToken_findUnique d tok =
     (case find (\<lambda>r. token r = tok) (refreshTokens d) of
        None \<Rightarrow> None
      | Some r \<Rightarrow> Some (r, user_findById d (userId r)))"

text \<open>\<^verbatim>\<open>prisma.refreshToken.deleteMany({where: {token}})\<close> and
  \<^verbatim>\<open>deleteMany({where: {userId}})\<close>\<close>

definition refreshToken_deleteMany_token :: "db \<Rightarrow> string \<Rightarrow> db" where
  "refreshToken_deleteMany_token d tok =
     d\<lparr>refreshTokens := filter (\<lambda>r. token r \<noteq> tok) (refreshTokens d)\<rparr>"

definition refreshToken_deleteMany_userId :: "db \<Rightarrow> string \<Rightarrow> db" where
  "refreshToken_deleteMany_userId d uid =
     d\<lparr>refreshTokens := filter (\<lambda>r. userId r \<noteq> uid) (refreshTokens d)\<rparr>"

section \<open>Requests and responses\<close>

datatype json = JString string | JBool bool | JDate time | JObject "(string \<times> json) list"

text \<open>The names of the properties of a serialised object.\<close>

fun jsonKeys :: "json \<Rightarrow> string list" where
  "jsonKeys (JObject fs) = map fst fs"
| "jsonKeys _ = []"

record api_response =
  success :: bool
  message :: string
  error :: "string option"
  data :: "json option"

text \<open>\<^verbatim>\<open>res.cookie(name, value, {httpOnly: true, secure, sameSite: "strict", path: "/",
  maxAge})\<close> with its value, its secure flag and its age, and \<^verbatim>\<open>res.clearCookie(name)\<close>.\<close>

datatype cookie_op = SetCookie string string bool nat | ClearCookie string

record response =
  status :: nat
  body :: api_response
  cookieOps :: "cookie_op list"

record request_body =
  body_email :: jsvalue
  body_password :: jsvalue
  body_firstName :: jsvalue
  body_lastName :: jsvalue

datatype auth_user = AuthUser (au_userId: string) (au_email: string)

text \<open>A request: its body (\<open>None\<close> when it is missing or no object), its cookies
  (\<open>None\<close> when the request has none parsed), its Authorization header and the identity
  the authentication middleware attached.\<close>

record request =
  reqBody :: "request_body option"
  cookies :: "(string \<times> string) list option"
  authorization :: "string option"
  reqUser :: "auth_user option"

text \<open>\<^verbatim>\<open>req.cookies?.name\<close>\<close>

definition cookie :: "request \<Rightarrow> string \<Rightarrow> string option" where
  "cookie req name = (case cookies req of None \<Rightarrow> None | Some cs \<Rightarrow> map_of cs name)"

definition failed :: "nat \<Rightarrow> string \<Rightarrow> string \<Rightarrow> response" where
  "failed st msg err =
     \<lparr>status = st,
      body = \<lparr>success = False, message = msg, error = Some err, data = None\<rparr>,
      cookieOps = []\<rparr>"

definition internalError :: response where
  "internalError = failed 500 ''Internal server error'' ''INTERNAL_ERROR''"

definition isProduction :: "env \<Rightarrow> bool" where
  "isProduction E = (NODE_ENV E = Some ''production'')"

definition accessCookie :: "env \<Rightarrow> string \<Rightarrow> cookie_op" where
  "accessCookie E tok = SetCookie ''accessToken'' tok (isProduction E) (15 * 60 * 1000)"

definition refreshCookie :: "env \<Rightarrow> string \<Rightarrow> cookie_op" where
  "refreshCookie E tok = SetCookie ''refreshToken'' tok (isProduction E) (7 * 24 * 60 * 60 * 1000)"

text \<open>A property whose value is \<^verbatim>\<open>x || undefined\<close>: it is in the serialised object
  only when \<open>x\<close> is a string that is not empty.\<close>

definition optField :: "string \<Rightarrow> string option \<Rightarrow> (string \<times> json) list" where
  "optField k x = (if truthy x then [(k, JString (the x))] else [])"

text \<open>The user object of a response, built field by field.\<close>

definition userResponse :: "user \<Rightarrow> json" where
  "userResponse u =
     JObject ([(''id'', JString (ident u)), (''email'', JString (email u))]
              @ optField ''firstName'' (firstName u)
              @ optField ''lastName'' (lastName u)
              @ [(''isActive'', JBool (isActive u)),
                 (''createdAt'', JDate (createdAt u)),
                 (''updatedAt'', JDate (updatedAt u))])"

definition authResponse :: "nat \<Rightarrow> string \<Rightarrow> env \<Rightarrow> user \<Rightarrow> string \<Rightarrow> string \<Rightarrow> response" where
  "authResponse st msg E u accessToken refreshTok =
     \<lparr>status = st,
      body = \<lparr>success = True, message = msg, error = None,
              data = Some (JObject [(''user'', userResponse u),
                                    (''accessToken'', JString accessToken)])\<rparr>,
      cookieOps = [accessCookie E accessToken, refreshCookie E refreshTok]\<rparr>"

section \<open>AuthController\<close>

text \<open>
  A handler takes the request and the store and gives the response and the store it
  leaves. An exception inside the handler's \<^verbatim>\<open>try\<close> gives the response 500 and
  leaves the store as the writes before it made it.
\<close>

definition invalidBody :: response where
  "invalidBody =
     failed 400
       ''Request body is missing or invalid. Please send JSON data with Content-Type: application/json''
       ''INVALID_REQUEST_BODY''"

definition validationError :: response where
  "validationError = failed 400 ''Email and password are required'' ''VALIDATION_ERROR''"

definition userExists :: response where
  "userExists = failed 409 ''User with this email already exists'' ''USER_EXISTS''"

definition invalidCredentials :: response where
  "invalidCredentials = failed 401 ''Invalid email or password'' ''INVALID_CREDENTIALS''"

definition accountDeactivated :: response where
  "accountDeactivated = failed 401 ''Account is deactivated'' ''ACCOUNT_DEACTIVATED''"

definition refreshTokenRequired :: response where
  "refreshTokenRequired = failed 401 ''Refresh token is required'' ''REFRESH_TOKEN_REQUIRED''"

definition invalidRefreshToken :: response where
  "invalidRefreshToken = failed 401 ''Invalid refresh token'' ''INVALID_REFRESH_TOKEN''"

definition refreshTokenExpired :: response where
  "refreshTokenExpired = failed 401 ''Refresh token expired or invalid'' ''REFRESH_TOKEN_EXPIRED''"

definition unauthorized :: response where
  "unauthorized = failed 401 ''User not authenticated'' ''UNAUTHORIZED''"

text \<open>\<^verbatim>\<open>`refresh_${Date.now()}_${Math.random()}`\<close>\<close>

definition tokenId :: "ctx \<Rightarrow> string" where
  "tokenId C = ''refresh_'' @ showInt (now C) @ ''_'' @ random C"

text \<open>The steps "Generate tokens" and "Store refresh token in database", which
  \<open>register\<close> and \<open>login\<close> have in the same words: the two tokens and the store with
  the new refresh-token row, or the first exception.\<close>

definition issueTokens :: "libs \<Rightarrow> env \<Rightarrow> ctx \<Rightarrow> user \<Rightarrow> db \<Rightarrow> failure + string \<times> string \<times> db" where
  "issueTokens L E C u d =
     (case generateAccessToken L E (ident u) (email u) (now C) of
        Inl x \<Rightarrow> Inl x
      | Inr accessToken \<Rightarrow>
          (case generateRefreshToken L E (ident u) (tokenId C) (now C) of
             Inl x \<Rightarrow> Inl x
           | Inr refreshTok \<Rightarrow>
               (case getTokenExpiration (now C) (refreshExpiresIn E) of
                  Inl x \<Rightarrow> Inl x
                | Inr ex \<Rightarrow>
                    (case refreshToken_create d refreshTok (ident u) ex of
                       Inl x \<Rightarrow> Inl x
                     | Inr d' \<Rightarrow> Inr (accessToken, refreshTok, d')))))"

definition register :: "libs \<Rightarrow> env \<Rightarrow> ctx \<Rightarrow> request \<Rightarrow> db \<Rightarrow> response \<times> db" where
  "register L E C req d =
     (case reqBody req of
        None \<Rightarrow> (invalidBody, d)
      | Some b \<Rightarrow>
          if \<not> truthyV (body_email b) \<or> \<not> truthyV (body_password b) then (validationError, d)
          else (case user_findUnique_where d (body_email b) of
                  Inl x \<Rightarrow> (internalError, d)
                | Inr existingUser \<Rightarrow>
                    if existingUser \<noteq> None then (userExists, d)
                    else (case bcrypt_hash L (body_password b) 12 (salt C) of
                            Inl x \<Rightarrow> (internalError, d)
                          | Inr hashedPassword \<Rightarrow>
                              (case user_create_data C d (body_email b) hashedPassword
                                      (body_firstName b) (body_lastName b) of
                                 Inl x \<Rightarrow> (internalError, d)
                               | Inr (u, d1) \<Rightarrow>
                                   (case issueTokens L E C u d1 of
                                      Inl x \<Rightarrow> (internalError, d1)
                                    | Inr (accessToken, refreshTok, d2) \<Rightarrow>
                                        (authResponse 201 ''User registered successfully'' E u
                                           accessToken refreshTok, d2))))))"

definition login :: "libs \<Rightarrow> env \<Rightarrow> ctx \<Rightarrow> request \<Rightarrow> db \<Rightarrow> response \<times> db" where
  "login L E C req d =
     (case reqBody req of
        None \<Rightarrow> (invalidBody, d)
      | Some b \<Rightarrow>
          if \<not> truthyV (body_email b) \<or> \<not> truthyV (body_password b) then (validationError, d)
          else (case user_findUnique_where d (body_email b) of
                  Inl x \<Rightarrow> (internalError, d)
                | Inr None \<Rightarrow> (invalidCredentials, d)
                | Inr (Some u) \<Rightarrow>
                    if \<not> isActive u then (accountDeactivated, d)
                    else (case bcrypt_compare L (body_password b) (password u) of
                            Inl x \<Rightarrow> (internalError, d)
                          | Inr isPasswordValid \<Rightarrow>
                              if \<not> isPasswordValid then (invalidCredentials, d)
                              else (case issueTokens L E C u d of
                                      Inl x \<Rightarrow> (internalError, d)
                                    | Inr (accessToken, refreshTok, d') \<Rightarrow>
                                        (authResponse 200 ''Login successful'' E u
                                           accessToken refreshTok, d')))))"

text \<open>The refresh token a refresh request presents: the cookie, or else the rest of a
  Bearer Authorization header.\<close>

definition presentedRefreshToken :: "request \<Rightarrow> string option" where
  "presentedRefreshToken req =
     (if \<not> truthy (cookie req ''refreshToken'') \<and> truthy (authorization req)
      then (if startsWith (the (authorization req)) ''Bearer ''
            then Some (drop 7 (the (authorization req)))
            else cookie req ''refreshToken'')
      else cookie req ''refreshToken'')"

definition tokenRefreshed :: "env \<Rightarrow> string \<Rightarrow> response" where
  "tokenRefreshed E newAccessToken =
     \<lparr>status = 200,
      body = \<lparr>success = True, message = ''Token refreshed successfully'', error = None,
              data = Some (JObject [(''accessToken'', JString newAccessToken)])\<rparr>,
      cookieOps = [accessCookie E newAccessToken]\<rparr>"

definition refreshToken :: "libs \<Rightarrow> env \<Rightarrow> ctx \<Rightarrow> request \<Rightarrow> db \<Rightarrow> response \<times> db" where
  "refreshToken L E C req d =
     (if \<not> truthy (presentedRefreshToken req) then (refreshTokenRequired, d)
      else (case verifyRefreshToken E (the (presentedRefreshToken req)) (now C) of
              Inl x \<Rightarrow> (invalidRefreshToken, d)
            | Inr decoded \<Rightarrow>
                (case refreshToken_findUnique d (the (presentedRefreshToken req)) of
                   None \<Rightarrow> (refreshTokenExpired, d)
                 | Some (storedToken, owner) \<Rightarrow>
                     if expiresAt storedToken < now C then (refreshTokenExpired, d)
                     else (case owner of
                             None \<Rightarrow> (internalError, d)
                           | Some u \<Rightarrow>
                               if \<not> isActive u then (accountDeactivated, d)
                               else (case generateAccessToken L E (ident u) (email u) (now C) of
                                       Inl x \<Rightarrow> (internalError, d)
                                     | Inr newAccessToken \<Rightarrow>
                                         (tokenRefreshed E newAccessToken, d))))))"

definition loggedOut :: "string \<Rightarrow> response" where
  "loggedOut msg =
     \<lparr>status = 200,
      body = \<lparr>success = True, message = msg, error = None, data = None\<rparr>,
      cookieOps = [ClearCookie ''accessToken'', ClearCookie ''refreshToken'']\<rparr>"

definition logout :: "request \<Rightarrow> db \<Rightarrow> response \<times> db" where
  "logout req d =
     (if truthy (cookie req ''refreshToken'')
      then (loggedOut ''Logout successful'',
            refreshToken_deleteMany_token d (the (cookie req ''refreshToken'')))
      else (loggedOut ''Logout successful'', d))"

definition logoutAll :: "request \<Rightarrow> db \<Rightarrow> response \<times> db" where
  "logoutAll req d =
     (case reqUser req of
        None \<Rightarrow> (unauthorized, d)
      | Some au \<Rightarrow>
          (loggedOut ''Logged out from all devices successfully'',
           refreshToken_deleteMany_userId d (au_userId au)))"

section \<open>Refresh tokens and their owners\<close>

text \<open>A token minted for a user is a token whose payload names that user's id, as
  \<open>generateRefreshToken\<close> makes it. In a store that only the handlers have written,
  every refresh-token row holds a token minted for the owner of the row.\<close>

definition mintedFor :: "string \<Rightarrow> string \<Rightarrow> bool" where
  "mintedFor tok uid =
     (case jwt_decode tok of
        None \<Rightarrow> False
      | Some (key, c) \<Rightarrow> map_of (claims c) ''userId'' = Some uid)"

definition rowsOwned :: "db \<Rightarrow> bool" where
  "rowsOwned d = list_all (\<lambda>r. mintedFor (token r) (userId r)) (refreshTokens d)"

section \<open>Example data\<close>

text \<open>A configuration, library functions and a clock reading on which the
  properties below are instantiated.\<close>

definition exLibs :: libs where
  "exLibs = \<lparr>ms = (\<lambda>s. if s = ''15m'' then Some 900000 else if s = ''7d'' then Some 604800000 else None),
             bcryptHash = (\<lambda>pw rounds s. s @ pw),
             bcryptCompare = (\<lambda>pw h. drop 4 h = pw)\<rparr>"

definition exEnv :: env where
  "exEnv = \<lparr>JWT_ACCESS_SECRET = Some ''access-key'', JWT_REFRESH_SECRET = Some ''refresh-key'',
            JWT_ACCESS_EXPIRES_IN = None, JWT_REFRESH_EXPIRES_IN = None, NODE_ENV = None\<rparr>"

definition exCtx :: ctx where
  "exCtx = \<lparr>now = 1700000000000, random = ''0.25'', salt = ''salt'', newUserId = ''u2'',
            defaultActive = True\<rparr>"

definition exAlice :: user where
  "exAlice = \<lparr>ident = ''u1'', email = ''alice@example.com'', password = ''saltpw123456'',
              firstName = Some ''Alice'', lastName = None, isActive = True,
              createdAt = 1690000000000, updatedAt = 1690000000000\<rparr>"

definition exRefreshTok :: string where
  "exRefreshTok =
     jwt_encode ''refresh-key''
       \<lparr>claims = [(''userId'', ''u1''), (''tokenId'', ''refresh_1699999000000_0.75'')],
        iat = 1699999000, exp = 1700603800\<rparr>"

definition exDb :: db where
  "exDb = \<lparr>users = [exAlice],
           refreshTokens = [\<lparr>token = exRefreshTok, userId = ''u1'', expiresAt = 1700603800000\<rparr>]\<rparr>"

definition exCookieReq :: request where
  "exCookieReq = \<lparr>reqBody = None, cookies = Some [(''refreshToken'', exRefreshTok)],
                  authorization = None, reqUser = Some (AuthUser ''u1'' ''alice@example.com'')\<rparr>"

definition exHeaderReq :: request where
  "exHeaderReq = \<lparr>reqBody = None, cookies = None,
                  authorization = Some (''Bearer '' @ exRefreshTok),
                  reqUser = Some (AuthUser ''u1'' ''alice@example.com'')\<rparr>"

definition exLoginReq :: "string \<Rightarrow> string \<Rightarrow> request" where
  "exLoginReq e pw =
     \<lparr>reqBody = Some \<lparr>body_email = VString e, body_password = VString pw,
                       body_firstName = VUndefined, body_lastName = VUndefined\<rparr>,
      cookies = None, authorization = None, reqUser = None\<rparr>"

definition exRegisterReq :: request where
  "exRegisterReq =
     \<lparr>reqBody = Some \<lparr>body_email = VString ''bob@example.com'',
                       body_password = VString ''secret99'',
                       body_firstName = VString ''Bob'', body_lastName = VString []\<rparr>,
      cookies = None, authorization = None, reqUser = None\<rparr>"


section \<open>Numerals and durations: auxiliary facts\<close>

lemma isDigit_digitChar: "d < 10 \<Longrightarrow> isDigit (digitChar d)"
  by (simp add: isDigit_def digitChar_def)

lemma digitVal_digitChar: "d < 10 \<Longrightarrow> digitVal (digitChar d) = d"
  by (simp add: digitVal_def digitChar_def)

lemma showNat_nonempty: "showNat n \<noteq> []"
  by (subst showNat.simps) simp

lemma showNat_digits: "list_all isDigit (showNat n)"
proof (induction n rule: showNat.induct)
  case (1 n)
  show ?case
  proof (cases "n < 10")
    case True
    then show ?thesis by (subst showNat.simps) (simp add: isDigit_digitChar)
  next
    case False
    with 1 show ?thesis by (subst showNat.simps) (simp add: isDigit_digitChar)
  qed
qed

lemma parseNat_snoc: "parseNat (ds @ [c]) = 10 * parseNat ds + digitVal c"
  by (simp add: parseNat_def)

lemma parseNat_showNat: "parseNat (showNat n) = n"
proof (induction n rule: showNat.induct)
  case (1 n)
  show ?case
  proof (cases "n < 10")
    case True
    then show ?thesis by (subst showNat.simps) (simp add: parseNat_def digitVal_digitChar)
  next
    case False
    with 1 have "parseNat (showNat (n div 10)) = n div 10" by simp
    with False show ?thesis
      by (subst showNat.simps) (simp add: parseNat_snoc digitVal_digitChar)
  qed
qed

lemma matchDuration_shape:
  "matchDuration s = (if durationShape s then Some (butlast s, last s) else None)"
proof (cases "durationShape s")
  case True
  then obtain ds u where "s = ds @ [u]" "ds \<noteq> []" "list_all isDigit ds" "u \<in> set ''smhd''"
    unfolding durationShape_def by blast
  then show ?thesis
    using True by (simp add: matchDuration_def)
next
  case False
  show ?thesis
  proof (cases "s = []")
    case True
    then show ?thesis using False by (simp add: matchDuration_def)
  next
    case ne: False
    then have s: "s = butlast s @ [last s]" by simp
    have "\<not> (butlast s \<noteq> [] \<and> list_all isDigit (butlast s) \<and> last s \<in> set ''smhd'')"
    proof
      assume a: "butlast s \<noteq> [] \<and> list_all isDigit (butlast s) \<and> last s \<in> set ''smhd''"
      have "durationShape s"
        unfolding durationShape_def
        using a s by (intro exI[of _ "butlast s"] exI[of _ "last s"]) simp
      with False show False by simp
    qed
    then show ?thesis using False ne by (simp add: matchDuration_def)
  qed
qed

lemma unit_cases:
  "u \<in> set ''smhd'' \<Longrightarrow>
   (if u = CHR ''s'' then Inr (newDate (t + v * 1000))
    else if u = CHR ''m'' then Inr (newDate (t + v * 60 * 1000))
    else if u = CHR ''h'' then Inr (newDate (t + v * 60 * 60 * 1000))
    else if u = CHR ''d'' then Inr (newDate (t + v * 24 * 60 * 60 * 1000))
    else Inl InvalidTimeUnit) = (Inr (newDate (t + v * unitMillis u)) :: failure + jsdate)"
  by (auto simp: unitMillis_def mult.commute)

lemma getTokenExpiration_eq:
  "getTokenExpiration t s =
     (if durationShape s
      then Inr (newDate (t + parseInt (butlast s) * unitMillis (last s)))
      else Inl InvalidExpirationFormat)"
proof (cases "durationShape s")
  case True
  then have "last s \<in> set ''smhd''" unfolding durationShape_def by auto
  from unit_cases[OF this] True show ?thesis
    by (simp add: getTokenExpiration_def matchDuration_shape Let_def)
next
  case False
  then show ?thesis by (simp add: getTokenExpiration_def matchDuration_shape)
qed

lemma durationShapeI:
  "ds \<noteq> [] \<Longrightarrow> list_all isDigit ds \<Longrightarrow> u \<in> set ''smhd'' \<Longrightarrow> durationShape (ds @ [u])"
  unfolding durationShape_def by blast

lemma durationShape_matchDuration: "durationShape s \<longleftrightarrow> matchDuration s \<noteq> None"
  by (simp add: matchDuration_shape)

lemma newDate_in_range: "- maxTime \<le> t \<Longrightarrow> t \<le> maxTime \<Longrightarrow> newDate t = Date t"
  by (simp add: newDate_def)

section \<open>Token expiration dates\<close>

text \<open>
  Claim C4, as the code has it. \<open>getTokenExpiration\<close>, evaluated at the instant \<open>t\<close>,
  returns a date exactly for the strings made of one or more digits and one unit letter
  among s, m, h, d, and throws the format error for every other string. When the instant
  \<open>t\<close> plus the offset (the number times 1000, 60000, 3600000 or 86400000 ms) is within
  the range of dates, the date returned is that instant; in particular for \<open>15m\<close>
  (900 s) and \<open>7d\<close> (604800 s), while \<open>bogus\<close> and \<open>15\<close> are refused.
\<close>

theorem getTokenExpiration_in_range:
  "(durationShape s \<longleftrightarrow> (\<exists>d. getTokenExpiration t s = Inr d)) \<and>
   (\<not> durationShape s \<longrightarrow> getTokenExpiration t s = Inl InvalidExpirationFormat) \<and>
   (ds \<noteq> [] \<and> list_all isDigit ds \<and> u \<in> set ''smhd'' \<and>
      - maxTime \<le> t + parseInt ds * unitMillis u \<and> t + parseInt ds * unitMillis u \<le> maxTime
      \<longrightarrow> getTokenExpiration t (ds @ [u]) = Inr (Date (t + parseInt ds * unitMillis u))) \<and>
   (u \<in> set ''smhd'' \<and>
      - maxTime \<le> t + int n * unitMillis u \<and> t + int n * unitMillis u \<le> maxTime
      \<longrightarrow> getTokenExpiration t (showNat n @ [u]) = Inr (Date (t + int n * unitMillis u))) \<and>
   unitMillis CHR ''s'' = 1000 \<and> unitMillis CHR ''m'' = 60 * 1000 \<and>
   unitMillis CHR ''h'' = 3600 * 1000 \<and> unitMillis CHR ''d'' = 86400 * 1000 \<and>
   (- maxTime \<le> t + 900 * 1000 \<and> t + 900 * 1000 \<le> maxTime
      \<longrightarrow> getTokenExpiration t ''15m'' = Inr (Date (t + 900 * 1000))) \<and>
   (- maxTime \<le> t + 604800 * 1000 \<and> t + 604800 * 1000 \<le> maxTime
      \<longrightarrow> getTokenExpiration t ''7d'' = Inr (Date (t + 604800 * 1000))) \<and>
   getTokenExpiration t ''bogus'' = Inl InvalidExpirationFormat \<and>
   getTokenExpiration t ''15'' = Inl InvalidExpirationFormat"
proof -
  have a: "durationShape s \<longleftrightarrow> (\<exists>d. getTokenExpiration t s = Inr d)"
    by (simp add: getTokenExpiration_eq)
  have b: "\<not> durationShape s \<longrightarrow> getTokenExpiration t s = Inl InvalidExpirationFormat"
    by (simp add: getTokenExpiration_eq)
  have c: "getTokenExpiration t (ds @ [u]) = Inr (Date (t + parseInt ds * unitMillis u))"
    if "ds \<noteq> []" "list_all isDigit ds" "u \<in> set ''smhd''"
      "- maxTime \<le> t + parseInt ds * unitMillis u" "t + parseInt ds * unitMillis u \<le> maxTime"
    for ds u
    using that durationShapeI[of ds u] by (simp add: getTokenExpiration_eq newDate_in_range)
  have d: "getTokenExpiration t (showNat n @ [u]) = Inr (Date (t + int n * unitMillis u))"
    if "u \<in> set ''smhd''" "- maxTime \<le> t + int n * unitMillis u"
      "t + int n * unitMillis u \<le> maxTime"
    using c[of "showNat n" u] that
    by (simp add: showNat_nonempty showNat_digits parseInt_def parseNat_showNat)
  have e: "unitMillis CHR ''s'' = 1000 \<and> unitMillis CHR ''m'' = 60 * 1000 \<and>
      unitMillis CHR ''h'' = 3600 * 1000 \<and> unitMillis CHR ''d'' = 86400 * 1000"
    by (simp add: unitMillis_def)
  have p15: "parseInt ''15'' = 15" and p7: "parseInt ''7'' = 7"
    by (simp_all add: parseInt_def parseNat_def digitVal_def)
  have d15: "list_all isDigit ''15''" and d7: "list_all isDigit ''7''"
    by (simp_all add: isDigit_def)
  have f: "getTokenExpiration t ''15m'' = Inr (Date (t + 900 * 1000))"
    if "- maxTime \<le> t + 900 * 1000" "t + 900 * 1000 \<le> maxTime"
    using c[of "''15''" "CHR ''m''"] that p15 d15 e by simp
  have g: "getTokenExpiration t ''7d'' = Inr (Date (t + 604800 * 1000))"
    if "- maxTime \<le> t + 604800 * 1000" "t + 604800 * 1000 \<le> maxTime"
    using c[of "''7''" "CHR ''d''"] that p7 d7 e by simp
  have h: "getTokenExpiration t ''bogus'' = Inl InvalidExpirationFormat"
    by (simp add: getTokenExpiration_def matchDuration_def isDigit_def)
  have i: "getTokenExpiration t ''15'' = Inl InvalidExpirationFormat"
    by (simp add: getTokenExpiration_def matchDuration_def isDigit_def)
  from a b c d e f g h i show ?thesis by blast
qed

theorem getTokenExpiration_in_range_witness:
  "durationShape ''30s'' \<and>
   getTokenExpiration 1700000000000 ''30s'' = Inr (Date 1700000030000) \<and>
   \<not> durationShape ''30'' \<and>
   getTokenExpiration 1700000000000 ''30'' = Inl InvalidExpirationFormat \<and>
   getTokenExpiration 1700000000000 ''15m'' = Inr (Date 1700000900000) \<and>
   getTokenExpiration 1700000000000 ''7d'' = Inr (Date 1700604800000)"
proof -
  let ?t = "1700000000000 :: int"
  note spec = getTokenExpiration_in_range[of "''30''" ?t "''30''" "CHR ''s''" 30]
  have m: "matchDuration ''30'' = None" "matchDuration ''30s'' \<noteq> None"
    by (simp_all add: matchDuration_def isDigit_def)
  then have s: "\<not> durationShape ''30''" "durationShape ''30s''"
    by (simp_all add: durationShape_matchDuration)
  have p: "parseInt ''30'' = 30" "list_all isDigit ''30''"
    by (simp_all add: parseInt_def parseNat_def digitVal_def isDigit_def)
  have r: "getTokenExpiration ?t (''30'' @ [CHR ''s'']) = Inr (Date (?t + parseInt ''30'' * unitMillis CHR ''s''))"
    using spec p by (simp add: maxTime_def)
  have n: "getTokenExpiration ?t ''30'' = Inl InvalidExpirationFormat"
    using spec s by blast
  have q: "getTokenExpiration ?t ''15m'' = Inr (Date (?t + 900 * 1000))"
     "getTokenExpiration ?t ''7d'' = Inr (Date (?t + 604800 * 1000))"
    using spec by (simp_all add: maxTime_def)
  from r p spec have r': "getTokenExpiration ?t ''30s'' = Inr (Date 1700000030000)" by simp
  from s r' n q show ?thesis by simp
qed

text \<open>
  Claim C4 as it is written promises the instant \<open>t\<close> plus the offset for every string
  of the shape. For a number of days whose offset leaves the range of dates the function
  returns an invalid date instead, without throwing.
\<close>

theorem getTokenExpiration_overflow_counterexample:
  "durationShape ''100000000d'' \<and>
   getTokenExpiration 1700000000000 ''100000000d'' = Inr InvalidDate \<and>
   getTokenExpiration 1700000000000 ''100000000d''
     \<noteq> Inr (Date (1700000000000 + 100000000 * (86400 * 1000)))"
proof -
  have "matchDuration ''100000000d'' \<noteq> None"
    by (simp add: matchDuration_def isDigit_def)
  then have s: "durationShape ''100000000d''" by (simp add: durationShape_matchDuration)
  have "getTokenExpiration 1700000000000 ''100000000d'' = Inr InvalidDate"
    by (simp add: getTokenExpiration_def matchDuration_def isDigit_def parseInt_def
        parseNat_def digitVal_def newDate_def maxTime_def)
  with s show ?thesis by simp
qed

section \<open>The token library: auxiliary facts\<close>

lemma isNumeral_showNat: "isNumeral (showNat n)"
  by (simp add: isNumeral_def showNat_nonempty showNat_digits)

lemma readInt_showNat: "readInt (showNat n) = Some (int n)"
proof (cases "showNat n")
  case Nil
  then show ?thesis by (simp add: showNat_nonempty)
next
  case (Cons c ds)
  then have "isDigit c" using showNat_digits[of n] by simp
  then have "c \<noteq> CHR ''-''" by (auto simp: isDigit_def)
  moreover have "isNumeral (c # ds)" using isNumeral_showNat[of n] Cons by simp
  moreover have "parseInt (c # ds) = int n"
    using parseNat_showNat[of n] Cons by (simp add: parseInt_def)
  ultimately show ?thesis using Cons by (simp add: readInt_def)
qed

lemma readInt_showInt: "readInt (showInt i) = Some i"
proof (cases "i < 0")
  case True
  then show ?thesis
    by (simp add: showInt_def readInt_def isNumeral_showNat parseInt_def parseNat_showNat)
next
  case False
  then show ?thesis by (simp add: showInt_def readInt_showNat)
qed

lemma unframe_frame: "unframe (frame s @ r) = Some (s, r)"
proof -
  have d: "\<And>x. x \<in> set (showNat (length s)) \<Longrightarrow> isDigit x"
    using showNat_digits[of "length s"] by (simp add: list_all_iff)
  have c: "\<not> isDigit CHR '':''" by (simp add: isDigit_def)
  have t: "takeWhile isDigit (frame s @ r) = showNat (length s)"
    using d c by (simp add: frame_def)
  have dr: "dropWhile isDigit (frame s @ r) = CHR '':'' # s @ r"
    using d c by (simp add: frame_def)
  show ?thesis
    by (simp add: unframe_def t dr showNat_nonempty parseNat_showNat)
qed

lemma frame_nonempty: "frame s @ r \<noteq> []"
  by (simp add: frame_def showNat_nonempty)

lemma unframeAll_frames: "unframeAll (concat (map frame xs)) = Some xs"
proof (induction xs)
  case Nil
  show ?case by (subst unframeAll.simps) simp
next
  case (Cons x xs)
  have ne: "frame x @ concat (map frame xs) \<noteq> []" by (rule frame_nonempty)
  have "unframeAll (frame x @ concat (map frame xs)) = Some (x # xs)"
    using ne Cons
    by (subst unframeAll.simps)
       (simp only: unframe_frame if_False option.case prod.case option.map)
  then show ?case by simp
qed

lemma pairUp_flatten: "pairUp (flatten fs) = Some fs"
  by (induction fs) (auto simp: flatten_def)

lemma jwt_decode_encode: "jwt_decode (jwt_encode key c) = Some (key, c)"
  by (simp add: jwt_decode_def jwt_encode_def unframeAll_frames readInt_showInt pairUp_flatten
        del: concat.simps map_eq_conv list.map)

lemma jwt_sign_Inr:
  "truthy secret \<Longrightarrow> ms L expiresIn = Some dur \<Longrightarrow>
   jwt_sign L payload secret expiresIn t =
     Inr (jwt_encode (the secret)
            \<lparr>claims = payload, iat = t div 1000, exp = t div 1000 + dur div 1000\<rparr>)"
  by (simp add: jwt_sign_def)

lemma jwt_verify_encode:
  "truthy secret \<Longrightarrow>
   jwt_verify (jwt_encode (the secret) c) secret t =
     (if exp c \<le> t div 1000 then Inl JwtExpired else Inr c)"
  by (simp add: jwt_verify_def jwt_decode_encode)

lemma startsWith_iff: "startsWith h p \<longleftrightarrow> (\<exists>s. h = p @ s)"
  unfolding startsWith_def by (metis append_eq_conv_conj)

section \<open>Bearer tokens\<close>

text \<open>
  Claim C5. For every header, \<open>extractTokenFromHeader\<close> returns the rest of the header
  after the prefix \<open>Bearer \<close> when the header starts with it, and returns nothing,
  without an error, when the header is absent or does not start with it:
  \<open>Bearer abc\<close> gives \<open>abc\<close>, \<open>abc\<close> gives nothing, and so does an undefined header.
\<close>

theorem extractTokenFromHeader_bearer:
  "extractTokenFromHeader None = None \<and>
   extractTokenFromHeader (Some h) =
     (if \<exists>s. h = ''Bearer '' @ s then Some (drop 7 h) else None) \<and>
   extractTokenFromHeader (Some (''Bearer '' @ s)) = Some s \<and>
   extractTokenFromHeader (Some ''Bearer abc'') = Some ''abc'' \<and>
   extractTokenFromHeader (Some ''abc'') = None"
proof -
  have a: "extractTokenFromHeader None = None"
    by (simp add: extractTokenFromHeader_def)
  have b: "extractTokenFromHeader (Some h) =
      (if \<exists>s. h = ''Bearer '' @ s then Some (drop 7 h) else None)"
  proof (cases "h = []")
    case True
    then show ?thesis by (simp add: extractTokenFromHeader_def)
  next
    case False
    then show ?thesis
      by (simp add: extractTokenFromHeader_def startsWith_iff del: append.simps)
  qed
  have c: "extractTokenFromHeader (Some (''Bearer '' @ s)) = Some s"
    by (simp add: extractTokenFromHeader_def startsWith_def)
  have d: "extractTokenFromHeader (Some ''Bearer abc'') = Some ''abc''"
    by (simp add: extractTokenFromHeader_def startsWith_def)
  have e: "extractTokenFromHeader (Some ''abc'') = None"
    by (simp add: extractTokenFromHeader_def startsWith_def)
  from a b c d e show ?thesis by simp
qed

theorem extractTokenFromHeader_bearer_witness:
  "extractTokenFromHeader (Some ''Bearer xyz.123'') = Some ''xyz.123'' \<and>
   extractTokenFromHeader (Some ''Basic xyz'') = None \<and>
   extractTokenFromHeader (Some ''Bearer '') = Some ''''"
proof -
  have a: "extractTokenFromHeader (Some (''Bearer '' @ ''xyz.123'')) = Some ''xyz.123''"
    using extractTokenFromHeader_bearer[of "''Basic xyz''" "''xyz.123''"] by blast
  have n: "\<not> (\<exists>s. ''Basic xyz'' = ''Bearer '' @ s)" by simp
  have b: "extractTokenFromHeader (Some ''Basic xyz'') = None"
    using extractTokenFromHeader_bearer[of "''Basic xyz''" "''''"] n by presburger
  have c: "extractTokenFromHeader (Some (''Bearer '' @ '''')) = Some ''''"
    using extractTokenFromHeader_bearer[of "''Basic xyz''" "''''"] by blast
  from a b c show ?thesis by simp
qed

section \<open>Access tokens\<close>

text \<open>
  Claim C6, as the code has it. When the access secret is configured and the token
  library reads the configured duration as \<open>dur\<close> milliseconds, \<open>generateAccessToken\<close>
  returns a token for every payload of a user id and an email, and \<open>verifyAccessToken\<close>
  returns the same user id and email (with the two time stamps) at every instant before
  the token's expiry second: at the instant of minting itself whenever the duration is
  at least one second, and at every instant that is two seconds or more before the
  duration has elapsed (the library counts in whole seconds).
\<close>

theorem access_token_round_trip:
  assumes "truthy (accessSecret E)"
    and "ms L (accessExpiresIn E) = Some dur"
  shows "\<exists>tok. generateAccessToken L E uid em t = Inr tok \<and>
           (\<forall>t'. t' div 1000 < t div 1000 + dur div 1000 \<longrightarrow>
              verifyAccessToken E tok t' =
                Inr \<lparr>claims = [(''userId'', uid), (''email'', em)],
                     iat = t div 1000, exp = t div 1000 + dur div 1000\<rparr>) \<and>
           (1000 \<le> dur \<longrightarrow>
              verifyAccessToken E tok t =
                Inr \<lparr>claims = [(''userId'', uid), (''email'', em)],
                     iat = t div 1000, exp = t div 1000 + dur div 1000\<rparr>) \<and>
           (\<forall>t'. t' + 2000 \<le> t + dur \<longrightarrow>
              verifyAccessToken E tok t' =
                Inr \<lparr>claims = [(''userId'', uid), (''email'', em)],
                     iat = t div 1000, exp = t div 1000 + dur div 1000\<rparr>)"
proof -
  let ?c = "\<lparr>claims = [(''userId'', uid), (''email'', em)],
             iat = t div 1000, exp = t div 1000 + dur div 1000\<rparr>"
  let ?tok = "jwt_encode (the (accessSecret E)) ?c"
  have g: "generateAccessToken L E uid em t = Inr ?tok"
    using assms by (simp add: generateAccessToken_def jwt_sign_Inr)
  have v: "verifyAccessToken E ?tok t' = Inr ?c" if "t' div 1000 < t div 1000 + dur div 1000" for t'
    using that assms(1) by (simp add: verifyAccessToken_def jwt_verify_encode)
  have "1 \<le> dur div 1000" if "1000 \<le> dur"
    using that by (simp add: pos_imp_zdiv_pos_iff)
  then have i: "1000 \<le> dur \<longrightarrow> verifyAccessToken E ?tok t = Inr ?c"
    using v[of t] by auto
  have w: "verifyAccessToken E ?tok t' = Inr ?c" if "t' + 2000 \<le> t + dur" for t'
  proof -
    have "t mod 1000 < 1000" "dur mod 1000 < 1000" "0 \<le> t' mod 1000" by simp_all
    moreover have "t = 1000 * (t div 1000) + t mod 1000"
      "dur = 1000 * (dur div 1000) + dur mod 1000" "t' = 1000 * (t' div 1000) + t' mod 1000"
      by simp_all
    ultimately have "t' div 1000 < t div 1000 + dur div 1000" using that by linarith
    then show ?thesis by (rule v)
  qed
  from g v i w show ?thesis by blast
qed

theorem access_token_round_trip_witness:
  "\<exists>tok. generateAccessToken exLibs exEnv ''u1'' ''alice@example.com'' 1700000000000 = Inr tok \<and>
         verifyAccessToken exEnv tok 1700000000000 =
           Inr \<lparr>claims = [(''userId'', ''u1''), (''email'', ''alice@example.com'')],
                iat = 1700000000, exp = 1700000900\<rparr> \<and>
         verifyAccessToken exEnv tok 1700000899999 =
           Inr \<lparr>claims = [(''userId'', ''u1''), (''email'', ''alice@example.com'')],
                iat = 1700000000, exp = 1700000900\<rparr>"
proof -
  let ?c = "\<lparr>claims = [(''userId'', ''u1''), (''email'', ''alice@example.com'')],
             iat = 1700000000000 div 1000, exp = 1700000000000 div 1000 + 900000 div 1000\<rparr>"
  have s: "truthy (accessSecret exEnv)"
    by (simp add: accessSecret_def exEnv_def)
  have m: "ms exLibs (accessExpiresIn exEnv) = Some 900000"
    by (simp add: accessExpiresIn_def orElse_def exEnv_def exLibs_def)
  have c: "?c = \<lparr>claims = [(''userId'', ''u1''), (''email'', ''alice@example.com'')],
                iat = 1700000000, exp = 1700000900\<rparr>"
    by simp
  have l1: "(1700000000000::int) div 1000 < 1700000000000 div 1000 + 900000 div 1000" by simp
  have l2: "(1700000899999::int) div 1000 < 1700000000000 div 1000 + 900000 div 1000" by simp
  from access_token_round_trip[OF s m, of "''u1''" "''alice@example.com''" 1700000000000]
  obtain tok where
    g: "generateAccessToken exLibs exEnv ''u1'' ''alice@example.com'' 1700000000000 = Inr tok"
    and v: "\<forall>t'. t' div 1000 < 1700000000000 div 1000 + 900000 div 1000 \<longrightarrow>
              verifyAccessToken exEnv tok t' = Inr ?c"
    by (elim exE conjE)
  have v1: "verifyAccessToken exEnv tok 1700000000000 = Inr ?c" by (rule v[rule_format, OF l1])
  have v2: "verifyAccessToken exEnv tok 1700000899999 = Inr ?c" by (rule v[rule_format, OF l2])
  from g v1 v2 show ?thesis unfolding c by (intro exI[of _ tok] conjI)
qed

text \<open>
  Claim C6 as it is written promises the round trip at every instant before the
  duration has elapsed. The token library stamps and compares in whole seconds: with the
  default duration of 15 minutes, a token minted at the millisecond 999 of a second
  carries an expiry second that begins 899001 ms later, and from then on it is refused,
  999 ms before the 15 minutes are over.
\<close>

theorem access_token_window_counterexample:
  "generateAccessToken exLibs exEnv ''u1'' ''alice@example.com'' 1700000000999 =
     Inr (jwt_encode ''access-key''
            \<lparr>claims = [(''userId'', ''u1''), (''email'', ''alice@example.com'')],
             iat = 1700000000, exp = 1700000900\<rparr>) \<and>
   (1700000900000 :: int) = 1700000000999 + 899001 \<and>
   (1700000900000 :: int) < 1700000000999 + 900000 \<and>
   verifyAccessToken exEnv
     (jwt_encode ''access-key''
        \<lparr>claims = [(''userId'', ''u1''), (''email'', ''alice@example.com'')],
         iat = 1700000000, exp = 1700000900\<rparr>) 1700000900000 = Inl InvalidAccessToken"
proof -
  let ?c = "\<lparr>claims = [(''userId'', ''u1''), (''email'', ''alice@example.com'')],
             iat = 1700000000, exp = 1700000900\<rparr>"
  have g: "generateAccessToken exLibs exEnv ''u1'' ''alice@example.com'' 1700000000999 =
      Inr (jwt_encode ''access-key'' ?c)"
    by (simp add: generateAccessToken_def jwt_sign_def accessSecret_def accessExpiresIn_def
        orElse_def exEnv_def exLibs_def)
  have s: "truthy (accessSecret exEnv)" "the (accessSecret exEnv) = ''access-key''"
    by (simp_all add: accessSecret_def exEnv_def)
  have v: "verifyAccessToken exEnv (jwt_encode ''access-key'' ?c) 1700000900000 =
      Inl InvalidAccessToken"
    using jwt_verify_encode[OF s(1), of ?c 1700000900000] s(2)
    by (simp add: verifyAccessToken_def)
  from g v show ?thesis by simp
qed

section \<open>Refreshing an access token\<close>

lemma find_None_iff': "find P xs = None \<longleftrightarrow> (\<forall>x \<in> set xs. \<not> P x)"
  by (induction xs) auto

lemma find_SomeD: "find P xs = Some x \<Longrightarrow> P x \<and> x \<in> set xs"
  by (auto simp: find_Some_iff)

text \<open>
  Claim C1. For every refresh request that carries a token, the handler checks in this
  order: the token must pass \<open>verifyRefreshToken\<close>, else the response is
  INVALID_REFRESH_TOKEN; a stored row with exactly that token must exist and its expiry
  must not be before the clock, else REFRESH_TOKEN_EXPIRED; the owner of the row must be
  active, else ACCOUNT_DEACTIVATED. A response 200 with a new access token is given only
  when all three hold, so a token that only verifies is not enough.
\<close>

theorem refreshToken_checks_in_order:
  assumes "presentedRefreshToken req = Some tok" and "tok \<noteq> []"
  shows
   "(verifyRefreshToken E tok (now C) = Inl x \<longrightarrow>
       refreshToken L E C req d = (invalidRefreshToken, d)) \<and>
    (verifyRefreshToken E tok (now C) = Inr c \<and> refreshToken_findUnique d tok = None \<longrightarrow>
       refreshToken L E C req d = (refreshTokenExpired, d)) \<and>
    (verifyRefreshToken E tok (now C) = Inr c \<and>
     refreshToken_findUnique d tok = Some (r, owner) \<and> expiresAt r < now C \<longrightarrow>
       refreshToken L E C req d = (refreshTokenExpired, d)) \<and>
    (verifyRefreshToken E tok (now C) = Inr c \<and>
     refreshToken_findUnique d tok = Some (r, Some u) \<and> now C \<le> expiresAt r \<and> \<not> isActive u \<longrightarrow>
       refreshToken L E C req d = (accountDeactivated, d)) \<and>
    (verifyRefreshToken E tok (now C) = Inr c \<and>
     refreshToken_findUnique d tok = Some (r, Some u) \<and> now C \<le> expiresAt r \<and> isActive u \<and>
     generateAccessToken L E (ident u) (email u) (now C) = Inr a \<longrightarrow>
       refreshToken L E C req d = (tokenRefreshed E a, d)) \<and>
    (status (fst (refreshToken L E C req d)) = 200 \<longrightarrow>
       (\<exists>c' r' u' a'. verifyRefreshToken E tok (now C) = Inr c' \<and>
          refreshToken_findUnique d tok = Some (r', Some u') \<and> token r' = tok \<and>
          now C \<le> expiresAt r' \<and> ident u' = userId r' \<and> isActive u' \<and>
          refreshToken L E C req d = (tokenRefreshed E a', d)))"
proof -
  have p: "truthy (presentedRefreshToken req)" "the (presentedRefreshToken req) = tok"
    using assms by simp_all
  have a1: "verifyRefreshToken E tok (now C) = Inl x \<longrightarrow>
       refreshToken L E C req d = (invalidRefreshToken, d)"
    using p by (simp add: refreshToken_def)
  have a2: "verifyRefreshToken E tok (now C) = Inr c \<and> refreshToken_findUnique d tok = None \<longrightarrow>
       refreshToken L E C req d = (refreshTokenExpired, d)"
    using p by (simp add: refreshToken_def)
  have a3: "verifyRefreshToken E tok (now C) = Inr c \<and>
     refreshToken_findUnique d tok = Some (r, owner) \<and> expiresAt r < now C \<longrightarrow>
       refreshToken L E C req d = (refreshTokenExpired, d)"
    using p by (simp add: refreshToken_def)
  have a4: "verifyRefreshToken E tok (now C) = Inr c \<and>
     refreshToken_findUnique d tok = Some (r, Some u) \<and> now C \<le> expiresAt r \<and> \<not> isActive u \<longrightarrow>
       refreshToken L E C req d = (accountDeactivated, d)"
    using p by (simp add: refreshToken_def)
  have a5: "verifyRefreshToken E tok (now C) = Inr c \<and>
     refreshToken_findUnique d tok = Some (r, Some u) \<and> now C \<le> expiresAt r \<and> isActive u \<and>
     generateAccessToken L E (ident u) (email u) (now C) = Inr a \<longrightarrow>
       refreshToken L E C req d = (tokenRefreshed E a, d)"
    using p by (simp add: refreshToken_def)
  have st: "status invalidRefreshToken \<noteq> 200" "status refreshTokenExpired \<noteq> 200"
    "status accountDeactivated \<noteq> 200" "status internalError \<noteq> 200"
    "status refreshTokenRequired \<noteq> 200"
    by (simp_all add: invalidRefreshToken_def refreshTokenExpired_def accountDeactivated_def
        internalError_def refreshTokenRequired_def failed_def)
  have a6: "\<exists>c' r' u' a'. verifyRefreshToken E tok (now C) = Inr c' \<and>
          refreshToken_findUnique d tok = Some (r', Some u') \<and> token r' = tok \<and>
          now C \<le> expiresAt r' \<and> ident u' = userId r' \<and> isActive u' \<and>
          refreshToken L E C req d = (tokenRefreshed E a', d)"
    if ok: "status (fst (refreshToken L E C req d)) = 200"
  proof -
    from ok p st obtain c' where v: "verifyRefreshToken E tok (now C) = Inr c'"
      by (cases "verifyRefreshToken E tok (now C)") (auto simp: refreshToken_def)
    from ok p st v obtain r' owner' where f: "refreshToken_findUnique d tok = Some (r', owner')"
      by (cases "refreshToken_findUnique d tok") (auto simp: refreshToken_def)
    from ok p st v f have e: "now C \<le> expiresAt r'"
      by (auto simp: refreshToken_def split: if_splits)
    from ok p st v f e obtain u' where o: "owner' = Some u'"
      by (cases owner') (auto simp: refreshToken_def)
    from ok p st v f e o have act: "isActive u'"
      by (auto simp: refreshToken_def split: if_splits)
    from ok p st v f e o act obtain a' where
      g: "generateAccessToken L E (ident u') (email u') (now C) = Inr a'"
      by (cases "generateAccessToken L E (ident u') (email u') (now C)")
         (auto simp: refreshToken_def)
    from f have tk: "token r' = tok" and ow: "owner' = user_findById d (userId r')"
      by (auto simp: refreshToken_findUnique_def split: option.splits dest: find_SomeD)
    from ow o have "find (\<lambda>u. ident u = userId r') (users d) = Some u'"
      by (simp add: user_findById_def)
    then have "ident u' = userId r'" by (auto dest: find_SomeD)
    moreover have "refreshToken L E C req d = (tokenRefreshed E a', d)"
      using p v f e o act g by (simp add: refreshToken_def)
    ultimately show ?thesis using v f e o act tk by blast
  qed
  from a1 a2 a3 a4 a5 a6 show ?thesis by blast
qed

lemma frame_nonempty': "frame s \<noteq> []"
  by (simp add: frame_def)

lemma jwt_encode_nonempty: "jwt_encode key c \<noteq> []"
  by (simp add: jwt_encode_def frame_nonempty')

lemma exRefreshTok_nonempty: "exRefreshTok \<noteq> []"
  by (simp add: exRefreshTok_def jwt_encode_nonempty)

lemma exRefreshTok_verifies:
  "verifyRefreshToken exEnv exRefreshTok (now exCtx) =
     Inr \<lparr>claims = [(''userId'', ''u1''), (''tokenId'', ''refresh_1699999000000_0.75'')],
          iat = 1699999000, exp = 1700603800\<rparr>"
proof -
  have s: "truthy (refreshSecret exEnv)" "the (refreshSecret exEnv) = ''refresh-key''"
    by (simp_all add: refreshSecret_def exEnv_def)
  show ?thesis
    using jwt_verify_encode[OF s(1), of "\<lparr>claims = [(''userId'', ''u1''),
        (''tokenId'', ''refresh_1699999000000_0.75'')], iat = 1699999000, exp = 1700603800\<rparr>"
        "now exCtx"] s(2)
    by (simp add: verifyRefreshToken_def exRefreshTok_def exCtx_def)
qed

lemma exDb_find:
  "refreshToken_findUnique exDb exRefreshTok =
     Some (\<lparr>token = exRefreshTok, userId = ''u1'', expiresAt = 1700603800000\<rparr>, Some exAlice)"
  by (simp add: refreshToken_findUnique_def exDb_def user_findById_def exAlice_def)

lemma exCookieReq_presents: "presentedRefreshToken exCookieReq = Some exRefreshTok"
  using exRefreshTok_nonempty
  by (simp add: presentedRefreshToken_def exCookieReq_def cookie_def)

lemma exAccessToken:
  "generateAccessToken exLibs exEnv ''u1'' ''alice@example.com'' (now exCtx) =
     Inr (jwt_encode ''access-key''
            \<lparr>claims = [(''userId'', ''u1''), (''email'', ''alice@example.com'')],
             iat = 1700000000, exp = 1700000900\<rparr>)"
  by (simp add: generateAccessToken_def jwt_sign_def accessSecret_def accessExpiresIn_def
      orElse_def exEnv_def exLibs_def exCtx_def)

theorem refreshToken_checks_in_order_witness:
  "refreshToken exLibs exEnv exCtx exCookieReq exDb =
     (tokenRefreshed exEnv
        (jwt_encode ''access-key''
           \<lparr>claims = [(''userId'', ''u1''), (''email'', ''alice@example.com'')],
            iat = 1700000000, exp = 1700000900\<rparr>), exDb) \<and>
   (\<exists>c. verifyRefreshToken exEnv exRefreshTok (now exCtx) = Inr c) \<and>
   refreshToken exLibs exEnv exCtx exCookieReq (exDb\<lparr>refreshTokens := []\<rparr>) =
     (refreshTokenExpired, exDb\<lparr>refreshTokens := []\<rparr>)"
proof -
  let ?c = "\<lparr>claims = [(''userId'', ''u1''), (''tokenId'', ''refresh_1699999000000_0.75'')],
             iat = 1699999000, exp = 1700603800\<rparr>"
  let ?r = "\<lparr>token = exRefreshTok, userId = ''u1'', expiresAt = 1700603800000\<rparr>"
  let ?a = "jwt_encode ''access-key''
           \<lparr>claims = [(''userId'', ''u1''), (''email'', ''alice@example.com'')],
            iat = 1700000000, exp = 1700000900\<rparr>"
  have e: "now exCtx \<le> expiresAt ?r" by (simp add: exCtx_def)
  have act: "isActive exAlice" "ident exAlice = ''u1''" "email exAlice = ''alice@example.com''"
    by (simp_all add: exAlice_def)
  have g: "generateAccessToken exLibs exEnv (ident exAlice) (email exAlice) (now exCtx) = Inr ?a"
    using exAccessToken act by simp
  have ok: "refreshToken exLibs exEnv exCtx exCookieReq exDb = (tokenRefreshed exEnv ?a, exDb)"
    using refreshToken_checks_in_order[OF exCookieReq_presents exRefreshTok_nonempty,
        of exEnv exCtx InvalidRefreshToken exLibs exDb ?c ?r "Some exAlice" exAlice ?a]
      exRefreshTok_verifies exDb_find e act g
    by blast
  have none: "refreshToken_findUnique (exDb\<lparr>refreshTokens := []\<rparr>) exRefreshTok = None"
    by (simp add: refreshToken_findUnique_def)
  have gone: "refreshToken exLibs exEnv exCtx exCookieReq (exDb\<lparr>refreshTokens := []\<rparr>) =
     (refreshTokenExpired, exDb\<lparr>refreshTokens := []\<rparr>)"
    using refreshToken_checks_in_order[OF exCookieReq_presents exRefreshTok_nonempty,
        of exEnv exCtx InvalidRefreshToken exLibs "exDb\<lparr>refreshTokens := []\<rparr>" ?c ?r "Some exAlice" exAlice ?a]
      exRefreshTok_verifies none
    by blast
  from ok gone exRefreshTok_verifies show ?thesis by simp
qed

section \<open>Revoking refresh tokens\<close>

lemma findUnique_None_iff:
  "refreshToken_findUnique d tok = None \<longleftrightarrow> (\<forall>r \<in> set (refreshTokens d). token r \<noteq> tok)"
proof -
  have "refreshToken_findUnique d tok = None \<longleftrightarrow>
      find (\<lambda>r. token r = tok) (refreshTokens d) = None"
    by (simp add: refreshToken_findUnique_def split: option.splits)
  then show ?thesis by (simp add: find_None_iff')
qed

lemma status_loggedOut: "status (loggedOut msg) = 200"
  by (simp add: loggedOut_def)

lemma mintedFor_generateRefreshToken:
  "generateRefreshToken L E uid tid t = Inr rt \<Longrightarrow> mintedFor rt uid"
  by (auto simp: generateRefreshToken_def jwt_sign_def mintedFor_def jwt_decode_encode
      split: if_splits option.splits)

lemma mintedFor_unique: "mintedFor tok uid \<Longrightarrow> mintedFor tok uid' \<Longrightarrow> uid = uid'"
  by (auto simp: mintedFor_def split: option.splits)

lemma rowsOwned_owner:
  "rowsOwned d \<Longrightarrow> mintedFor tok uid \<Longrightarrow> r \<in> set (refreshTokens d) \<Longrightarrow> token r = tok \<Longrightarrow>
   userId r = uid"
  by (auto simp: rowsOwned_def list_all_iff dest: mintedFor_unique)

lemma rowsOwned_empty: "rowsOwned \<lparr>users = us, refreshTokens = []\<rparr>"
  by (simp add: rowsOwned_def)

text \<open>
  Claim C2. After \<open>logoutAll\<close> for an authenticated user has answered 200, the store
  holds no refresh-token row of that user (and every other row as before), and a refresh
  request that presents a token whose rows all belonged to that user is answered with
  REFRESH_TOKEN_EXPIRED, although the token passes \<open>verifyRefreshToken\<close>. In a store
  whose rows hold tokens minted for their owners, that is every token minted for the
  user.
\<close>

theorem logoutAll_revokes_refresh:
  assumes "reqUser req = Some au"
  shows
   "fst (logoutAll req d) = loggedOut ''Logged out from all devices successfully'' \<and>
    status (fst (logoutAll req d)) = 200 \<and>
    (\<forall>r \<in> set (refreshTokens (snd (logoutAll req d))). userId r \<noteq> au_userId au) \<and>
    refreshTokens (snd (logoutAll req d)) =
      filter (\<lambda>r. userId r \<noteq> au_userId au) (refreshTokens d) \<and>
    users (snd (logoutAll req d)) = users d \<and>
    (presentedRefreshToken req' = Some tok \<and> tok \<noteq> [] \<and>
     (\<forall>r \<in> set (refreshTokens d). token r = tok \<longrightarrow> userId r = au_userId au) \<and>
     verifyRefreshToken E tok (now C) = Inr c \<longrightarrow>
       refreshToken L E C req' (snd (logoutAll req d)) =
         (refreshTokenExpired, snd (logoutAll req d))) \<and>
    (presentedRefreshToken req' = Some tok \<and> tok \<noteq> [] \<and>
     rowsOwned d \<and> mintedFor tok (au_userId au) \<and>
     verifyRefreshToken E tok (now C) = Inr c \<longrightarrow>
       refreshToken L E C req' (snd (logoutAll req d)) =
         (refreshTokenExpired, snd (logoutAll req d)))"
proof -
  let ?d' = "refreshToken_deleteMany_userId d (au_userId au)"
  have l: "logoutAll req d = (loggedOut ''Logged out from all devices successfully'', ?d')"
    using assms by (simp add: logoutAll_def)
  have rs: "refreshTokens ?d' = filter (\<lambda>r. userId r \<noteq> au_userId au) (refreshTokens d)"
    and us: "users ?d' = users d"
    by (simp_all add: refreshToken_deleteMany_userId_def)
  have gone: "\<forall>r \<in> set (refreshTokens ?d'). userId r \<noteq> au_userId au"
    by (simp add: rs)
  have rf: "refreshToken L E C req' ?d' = (refreshTokenExpired, ?d')"
    if p: "presentedRefreshToken req' = Some tok" "tok \<noteq> []"
      and own: "\<forall>r \<in> set (refreshTokens d). token r = tok \<longrightarrow> userId r = au_userId au"
      and v: "verifyRefreshToken E tok (now C) = Inr c"
  proof -
    from own have "\<forall>r \<in> set (refreshTokens ?d'). token r \<noteq> tok"
      by (auto simp: rs)
    then have "refreshToken_findUnique ?d' tok = None"
      by (simp add: findUnique_None_iff)
    with p v show ?thesis by (simp add: refreshToken_def)
  qed
  show ?thesis
    unfolding l fst_conv snd_conv
  proof (intro conjI impI)
    show "loggedOut ''Logged out from all devices successfully'' =
        loggedOut ''Logged out from all devices successfully''" by (rule refl)
    show "status (loggedOut ''Logged out from all devices successfully'') = 200"
      by (rule status_loggedOut)
    show "\<forall>r \<in> set (refreshTokens ?d'). userId r \<noteq> au_userId au" by (rule gone)
    show "refreshTokens ?d' = filter (\<lambda>r. userId r \<noteq> au_userId au) (refreshTokens d)"
      by (rule rs)
    show "users ?d' = users d" by (rule us)
  next
    assume a: "presentedRefreshToken req' = Some tok \<and> tok \<noteq> [] \<and>
      (\<forall>r \<in> set (refreshTokens d). token r = tok \<longrightarrow> userId r = au_userId au) \<and>
      verifyRefreshToken E tok (now C) = Inr c"
    show "refreshToken L E C req' ?d' = (refreshTokenExpired, ?d')"
      using a by (intro rf) simp_all
  next
    assume a: "presentedRefreshToken req' = Some tok \<and> tok \<noteq> [] \<and>
      rowsOwned d \<and> mintedFor tok (au_userId au) \<and>
      verifyRefreshToken E tok (now C) = Inr c"
    then have "\<forall>r \<in> set (refreshTokens d). token r = tok \<longrightarrow> userId r = au_userId au"
      by (auto dest: rowsOwned_owner)
    with a show "refreshToken L E C req' ?d' = (refreshTokenExpired, ?d')"
      by (intro rf) simp_all
  qed
qed

theorem logoutAll_revokes_refresh_witness:
  "(\<exists>c. verifyRefreshToken exEnv exRefreshTok (now exCtx) = Inr c) \<and>
   rowsOwned exDb \<and> mintedFor exRefreshTok ''u1'' \<and>
   refreshTokens exDb \<noteq> [] \<and>
   status (fst (logoutAll exCookieReq exDb)) = 200 \<and>
   refreshTokens (snd (logoutAll exCookieReq exDb)) = [] \<and>
   refreshToken exLibs exEnv exCtx exHeaderReq (snd (logoutAll exCookieReq exDb)) =
     (refreshTokenExpired, snd (logoutAll exCookieReq exDb))"
proof -
  let ?au = "AuthUser ''u1'' ''alice@example.com''"
  let ?c = "\<lparr>claims = [(''userId'', ''u1''), (''tokenId'', ''refresh_1699999000000_0.75'')],
             iat = 1699999000, exp = 1700603800\<rparr>"
  have u: "reqUser exCookieReq = Some ?au" by (simp add: exCookieReq_def)
  have p: "presentedRefreshToken exHeaderReq = Some exRefreshTok"
    by (simp add: presentedRefreshToken_def exHeaderReq_def cookie_def startsWith_def)
  have own: "\<forall>r \<in> set (refreshTokens exDb). token r = exRefreshTok \<longrightarrow> userId r = au_userId ?au"
    by (simp add: exDb_def)
  note spec = logoutAll_revokes_refresh[OF u, of exDb exHeaderReq exRefreshTok exEnv exCtx ?c exLibs]
  have f: "filter (\<lambda>r. userId r \<noteq> au_userId ?au) (refreshTokens exDb) = []"
    by (simp add: exDb_def)
  have a: "status (fst (logoutAll exCookieReq exDb)) = 200"
    using spec by (elim conjE)
  have b: "refreshTokens (snd (logoutAll exCookieReq exDb)) = []"
    using spec f by (elim conjE) (simp only:)
  have h: "presentedRefreshToken exHeaderReq = Some exRefreshTok \<and> exRefreshTok \<noteq> [] \<and>
     (\<forall>r \<in> set (refreshTokens exDb). token r = exRefreshTok \<longrightarrow> userId r = au_userId ?au) \<and>
     verifyRefreshToken exEnv exRefreshTok (now exCtx) = Inr ?c"
    using p exRefreshTok_nonempty own exRefreshTok_verifies by (intro conjI)
  have imp: "presentedRefreshToken exHeaderReq = Some exRefreshTok \<and> exRefreshTok \<noteq> [] \<and>
     (\<forall>r \<in> set (refreshTokens exDb). token r = exRefreshTok \<longrightarrow> userId r = au_userId ?au) \<and>
     verifyRefreshToken exEnv exRefreshTok (now exCtx) = Inr ?c \<longrightarrow>
     refreshToken exLibs exEnv exCtx exHeaderReq (snd (logoutAll exCookieReq exDb)) =
       (refreshTokenExpired, snd (logoutAll exCookieReq exDb))"
    using spec by (elim conjE)
  have r: "refreshToken exLibs exEnv exCtx exHeaderReq (snd (logoutAll exCookieReq exDb)) =
     (refreshTokenExpired, snd (logoutAll exCookieReq exDb))"
    using imp h by (rule mp)
  have ne: "refreshTokens exDb \<noteq> []" by (simp add: exDb_def)
  have v: "\<exists>c. verifyRefreshToken exEnv exRefreshTok (now exCtx) = Inr c"
    using exRefreshTok_verifies by (rule exI)
  have m: "mintedFor exRefreshTok ''u1''"
    by (simp add: mintedFor_def exRefreshTok_def jwt_decode_encode)
  then have o: "rowsOwned exDb" by (simp add: rowsOwned_def exDb_def)
  from v o m ne a b r show ?thesis by (intro conjI)
qed

section \<open>Refresh without rotation\<close>









section \<open>Login and registration failures\<close>

lemma user_findUnique_None_iff:
  "user_findUnique d e = None \<longleftrightarrow> (\<forall>u \<in> set (users d). email u \<noteq> e)"
  by (simp add: user_findUnique_def find_None_iff')





lemma userExists_fields:
  "status userExists = 409" "error (body userExists) = Some ''USER_EXISTS''"
  "success (body userExists) = False"
  "data (body userExists) = None" "cookieOps userExists = []"
  by (simp_all add: userExists_def failed_def)

text \<open>
  Claim C8, as the code has it. For every register request that passes the validation
  of its fields (an email and a password are present) and whose email already has a user
  row, \<open>register\<close> answers 409 USER_EXISTS and leaves the store as it was: no user row
  and no refresh-token row is added, and the response carries no token, neither in its
  data nor in a cookie.
\<close>

theorem register_duplicate_email_conflict:
  assumes "reqBody req = Some b" and "body_email b = VString e" and "e \<noteq> []"
    and "truthyV (body_password b)"
    and "\<exists>u \<in> set (users d). email u = e"
  shows "register L E C req d = (userExists, d) \<and>
         status (fst (register L E C req d)) = 409 \<and>
         error (body (fst (register L E C req d))) = Some ''USER_EXISTS'' \<and>
         data (body (fst (register L E C req d))) = None \<and>
         cookieOps (fst (register L E C req d)) = [] \<and>
         users (snd (register L E C req d)) = users d \<and>
         refreshTokens (snd (register L E C req d)) = refreshTokens d"
proof -
  from assms(5) have "user_findUnique d e \<noteq> None"
    by (simp add: user_findUnique_None_iff)
  then have r: "register L E C req d = (userExists, d)"
    using assms(1-4) by (simp add: register_def user_findUnique_where_def)
  show ?thesis by (simp add: r userExists_fields)
qed

theorem register_duplicate_email_conflict_witness:
  "register exLibs exEnv exCtx (exLoginReq ''alice@example.com'' ''pw123456'') exDb =
     (userExists, exDb) \<and>
   status (fst (register exLibs exEnv exCtx (exLoginReq ''alice@example.com'' ''pw123456'') exDb)) = 409"
proof -
  let ?b = "\<lparr>body_email = VString ''alice@example.com'', body_password = VString ''pw123456'',
             body_firstName = VUndefined, body_lastName = VUndefined\<rparr>"
  have b: "reqBody (exLoginReq ''alice@example.com'' ''pw123456'') = Some ?b"
    by (simp add: exLoginReq_def)
  have e: "body_email ?b = VString ''alice@example.com''" "''alice@example.com'' \<noteq> []"
    by simp_all
  have t: "truthyV (body_password ?b)" by simp
  have x: "\<exists>u \<in> set (users exDb). email u = ''alice@example.com''"
    by (simp add: exDb_def exAlice_def)
  from register_duplicate_email_conflict[OF b e t x, of exLibs exEnv exCtx]
  show ?thesis by (elim conjE) (intro conjI)
qed

text \<open>
  Claim C8 as it is written promises the conflict for every register request whose email
  has a user row. The required fields are checked before the store is read: a request
  with the email of a stored user and an empty password is answered with 400
  VALIDATION_ERROR. The store is left as it was on this path as well.
\<close>

theorem register_duplicate_email_counterexample:
  "exAlice \<in> set (users exDb) \<and> email exAlice = ''alice@example.com'' \<and>
   register exLibs exEnv exCtx (exLoginReq ''alice@example.com'' []) exDb =
     (validationError, exDb) \<and>
   status (fst (register exLibs exEnv exCtx (exLoginReq ''alice@example.com'' []) exDb)) = 400 \<and>
   fst (register exLibs exEnv exCtx (exLoginReq ''alice@example.com'' []) exDb) \<noteq> userExists"
proof -
  have r: "register exLibs exEnv exCtx (exLoginReq ''alice@example.com'' []) exDb =
      (validationError, exDb)"
    by (simp add: register_def exLoginReq_def)
  have s: "status validationError = 400" "status userExists = 409"
    by (simp_all add: validationError_def userExists_def failed_def)
  then have ne: "validationError \<noteq> userExists" by auto
  have a: "exAlice \<in> set (users exDb)" "email exAlice = ''alice@example.com''"
    by (simp_all add: exDb_def exAlice_def)
  from a r s ne show ?thesis by simp
qed

section \<open>Logout\<close>



section \<open>The user object of a response\<close>

lemma response_status:
  "status invalidBody = 400" "status validationError = 400" "status userExists = 409"
  "status invalidCredentials = 401" "status accountDeactivated = 401"
  "status internalError = 500"
  by (simp_all add: invalidBody_def validationError_def userExists_def invalidCredentials_def
      accountDeactivated_def internalError_def failed_def)

lemma issueTokens_users:
  "issueTokens L E C u d = Inr (a, rt, d') \<Longrightarrow> users d' = users d"
  by (auto simp: issueTokens_def refreshToken_create_def
      split: sum.splits jsdate.splits if_splits)

lemma user_create_member:
  "user_create C d e pw fn ln = Inr (u, d') \<Longrightarrow> u \<in> set (users d') \<and> email u = e"
  by (auto simp: user_create_def Let_def split: if_splits)

lemma login_result:
  "login L E C req d \<in> {(invalidBody, d), (validationError, d), (internalError, d),
      (invalidCredentials, d), (accountDeactivated, d)} \<or>
   (\<exists>u a rt d'. u \<in> set (users d) \<and> issueTokens L E C u d = Inr (a, rt, d') \<and>
      login L E C req d = (authResponse 200 ''Login successful'' E u a rt, d'))"
proof (cases "reqBody req")
  case None
  then show ?thesis by (simp add: login_def)
next
  case (Some b)
  show ?thesis
  proof (cases "truthyV (body_email b) \<and> truthyV (body_password b)")
    case False
    with Some show ?thesis by (auto simp: login_def)
  next
    case t: True
    show ?thesis
    proof (cases "user_findUnique_where d (body_email b)")
      case (Inl x)
      with Some t show ?thesis by (simp add: login_def)
    next
      case (Inr found)
      show ?thesis
      proof (cases found)
        case None
        with Some t Inr show ?thesis by (simp add: login_def)
      next
        case (Some u)
        with Inr have "u \<in> set (users d)"
          by (auto simp: user_findUnique_where_def user_findUnique_def
              split: jsvalue.splits dest: find_SomeD)
        moreover note \<open>reqBody req = Some b\<close> t Inr Some
        ultimately show ?thesis
          by (cases "bcrypt_compare L (body_password b) (password u)";
              cases "issueTokens L E C u d")
             (auto simp: login_def)
      qed
    qed
  qed
qed

lemma register_result:
  "register L E C req d \<in> {(invalidBody, d), (validationError, d), (internalError, d),
      (userExists, d)} \<or>
   (\<exists>e pw fn ln u d1. user_create C d e pw fn ln = Inr (u, d1) \<and>
      (register L E C req d = (internalError, d1) \<or>
       (\<exists>a rt d2. issueTokens L E C u d1 = Inr (a, rt, d2) \<and>
          register L E C req d =
            (authResponse 201 ''User registered successfully'' E u a rt, d2))))"
proof (cases "reqBody req")
  case None
  then show ?thesis by (simp add: register_def)
next
  case (Some b)
  show ?thesis
  proof (cases "truthyV (body_email b) \<and> truthyV (body_password b)")
    case False
    with Some show ?thesis by (auto simp: register_def)
  next
    case t: True
    show ?thesis
    proof (cases "user_findUnique_where d (body_email b)")
      case (Inl x)
      with Some t show ?thesis by (simp add: register_def)
    next
      case found: (Inr existingUser)
      show ?thesis
      proof (cases "existingUser = None")
        case False
        with Some t found show ?thesis by (simp add: register_def)
      next
        case n: True
        show ?thesis
        proof (cases "bcrypt_hash L (body_password b) 12 (salt C)")
          case (Inl x)
          with Some t found n show ?thesis by (simp add: register_def)
        next
          case h: (Inr hashedPassword)
          show ?thesis
          proof (cases "user_create_data C d (body_email b) hashedPassword
              (body_firstName b) (body_lastName b)")
            case (Inl x)
            with Some t found n h show ?thesis by (simp add: register_def)
          next
            case (Inr p)
            obtain u d1 where p: "p = (u, d1)" by (cases p)
            with Inr have c: "user_create_data C d (body_email b) hashedPassword
              (body_firstName b) (body_lastName b) = Inr (u, d1)" by simp
            then obtain e fn ln where uc: "user_create C d e hashedPassword fn ln = Inr (u, d1)"
              by (auto simp: user_create_data_def split: jsvalue.splits sum.splits)
            show ?thesis
            proof (cases "issueTokens L E C u d1")
              case (Inl y)
              with Some t found n h c have "register L E C req d = (internalError, d1)"
                by (simp add: register_def)
              with uc show ?thesis by blast
            next
              case (Inr q)
              obtain a rt d2 where q: "q = (a, rt, d2)" by (cases q)
              with Inr have i: "issueTokens L E C u d1 = Inr (a, rt, d2)" by simp
              with Some t found n h c have "register L E C req d =
                  (authResponse 201 ''User registered successfully'' E u a rt, d2)"
                by (simp add: register_def)
              with uc i show ?thesis by blast
            qed
          qed
        qed
      qed
    qed
  qed
qed

lemma status_authResponse: "status (authResponse st msg E u a rt) = st"
  by (simp add: authResponse_def)

lemma login_success:
  assumes ok: "status (fst (login L E C req d)) = 200"
  shows "\<exists>u a rt d'. u \<in> set (users d) \<and>
           login L E C req d = (authResponse 200 ''Login successful'' E u a rt, d')"
  using login_result[of L E C req d] ok response_status by auto

lemma register_success:
  assumes ok: "status (fst (register L E C req d)) = 201"
  shows "\<exists>u a rt d'. u \<in> set (users d') \<and>
           register L E C req d =
             (authResponse 201 ''User registered successfully'' E u a rt, d')"
proof -
  from register_result[of L E C req d] ok response_status
  obtain e pw fn ln u d1 a rt d2 where c: "user_create C d e pw fn ln = Inr (u, d1)"
    and i: "issueTokens L E C u d1 = Inr (a, rt, d2)"
    and r: "register L E C req d =
      (authResponse 201 ''User registered successfully'' E u a rt, d2)"
    by auto
  from user_create_member[OF c] issueTokens_users[OF i] have "u \<in> set (users d2)" by simp
  with r show ?thesis by blast
qed

lemma data_authResponse:
  "data (body (authResponse st msg E u a rt)) =
     Some (JObject [(''user'', userResponse u), (''accessToken'', JString a)])"
  by (simp add: authResponse_def)

lemma jsonKeys_userResponse:
  "set (jsonKeys (userResponse u)) \<subseteq>
     {''id'', ''email'', ''firstName'', ''lastName'', ''isActive'', ''createdAt'', ''updatedAt''}"
  by (auto simp: userResponse_def optField_def)

lemma password_not_key: "''password'' \<notin> set (jsonKeys (userResponse u))"
  by (auto simp: userResponse_def optField_def)

lemma userResponse_password: "userResponse (u\<lparr>password := p\<rparr>) = userResponse u"
  by (simp add: userResponse_def)

text \<open>
  Claim C9. Every successful \<open>register\<close> (201) and every successful \<open>login\<close> (200)
  returns as its data the user object of a stored user and the access token. The user
  object has no property named password: its properties are among id, email,
  firstName, lastName, isActive, createdAt and updatedAt, and it is the same object
  whatever the password hash of the user is.
\<close>

theorem user_object_without_password:
  "(status (fst (register L E C req d)) = 201 \<longrightarrow>
      (\<exists>u a. u \<in> set (users (snd (register L E C req d))) \<and>
             data (body (fst (register L E C req d))) =
               Some (JObject [(''user'', userResponse u), (''accessToken'', JString a)]))) \<and>
   (status (fst (login L E C req d)) = 200 \<longrightarrow>
      (\<exists>u a. u \<in> set (users d) \<and>
             data (body (fst (login L E C req d))) =
               Some (JObject [(''user'', userResponse u), (''accessToken'', JString a)]))) \<and>
   ''password'' \<notin> set (jsonKeys (userResponse v)) \<and>
   set (jsonKeys (userResponse v)) \<subseteq>
     {''id'', ''email'', ''firstName'', ''lastName'', ''isActive'', ''createdAt'', ''updatedAt''} \<and>
   userResponse (v\<lparr>password := p\<rparr>) = userResponse v"
proof (intro conjI impI)
  assume "status (fst (register L E C req d)) = 201"
  from register_success[OF this] obtain u a rt d' where
    "u \<in> set (users d')"
    "register L E C req d = (authResponse 201 ''User registered successfully'' E u a rt, d')"
    by blast
  then show "\<exists>u a. u \<in> set (users (snd (register L E C req d))) \<and>
      data (body (fst (register L E C req d))) =
        Some (JObject [(''user'', userResponse u), (''accessToken'', JString a)])"
    by (auto simp: data_authResponse)
next
  assume "status (fst (login L E C req d)) = 200"
  from login_success[OF this] obtain u a rt d' where
    "u \<in> set (users d)"
    "login L E C req d = (authResponse 200 ''Login successful'' E u a rt, d')"
    by blast
  then show "\<exists>u a. u \<in> set (users d) \<and>
      data (body (fst (login L E C req d))) =
        Some (JObject [(''user'', userResponse u), (''accessToken'', JString a)])"
    by (auto simp: data_authResponse)
next
  show "''password'' \<notin> set (jsonKeys (userResponse v))" by (rule password_not_key)
  show "set (jsonKeys (userResponse v)) \<subseteq>
     {''id'', ''email'', ''firstName'', ''lastName'', ''isActive'', ''createdAt'', ''updatedAt''}"
    by (rule jsonKeys_userResponse)
  show "userResponse (v\<lparr>password := p\<rparr>) = userResponse v" by (rule userResponse_password)
qed

lemma jwt_encode_inject:
  "jwt_encode key c = jwt_encode key' c' \<Longrightarrow> key = key' \<and> c = c'"
proof -
  assume "jwt_encode key c = jwt_encode key' c'"
  then have "jwt_decode (jwt_encode key c) = jwt_decode (jwt_encode key' c')" by simp
  then show ?thesis by (simp add: jwt_decode_encode)
qed

lemma issueTokens_succeeds:
  assumes sa: "truthy (accessSecret E)" and ma: "ms L (accessExpiresIn E) = Some da"
    and sr: "truthy (refreshSecret E)" and mr: "ms L (refreshExpiresIn E) = Some dr"
    and ex: "getTokenExpiration (now C) (refreshExpiresIn E) = Inr (Date t)"
    and fk: "user_findById d (ident u) = Some u'"
    and fresh: "\<forall>r \<in> set (refreshTokens d).
        token r \<noteq> jwt_encode (the (refreshSecret E))
          \<lparr>claims = [(''userId'', ident u), (''tokenId'', tokenId C)],
           iat = now C div 1000, exp = now C div 1000 + dr div 1000\<rparr>"
  shows "\<exists>a rt d'. issueTokens L E C u d = Inr (a, rt, d')"
proof -
  let ?rt = "jwt_encode (the (refreshSecret E))
          \<lparr>claims = [(''userId'', ident u), (''tokenId'', tokenId C)],
           iat = now C div 1000, exp = now C div 1000 + dr div 1000\<rparr>"
  have g: "generateRefreshToken L E (ident u) (tokenId C) (now C) = Inr ?rt"
    using sr mr by (simp add: generateRefreshToken_def jwt_sign_Inr)
  obtain a where a: "generateAccessToken L E (ident u) (email u) (now C) = Inr a"
    using sa ma by (simp add: generateAccessToken_def jwt_sign_Inr)
  from fresh have n: "find (\<lambda>r. token r = ?rt) (refreshTokens d) = None"
    by (simp add: find_None_iff')
  have c: "refreshToken_create d ?rt (ident u) (Date t) =
      Inr (d\<lparr>refreshTokens := refreshTokens d @ [\<lparr>token = ?rt, userId = ident u, expiresAt = t\<rparr>]\<rparr>)"
    using n fk by (simp add: refreshToken_create_def)
  show ?thesis
    using a g ex c by (simp add: issueTokens_def)
qed

lemma exEnv_facts:
  "truthy (accessSecret exEnv)" "ms exLibs (accessExpiresIn exEnv) = Some 900000"
  "truthy (refreshSecret exEnv)" "ms exLibs (refreshExpiresIn exEnv) = Some 604800000"
  "the (refreshSecret exEnv) = ''refresh-key''"
  by (simp_all add: accessSecret_def refreshSecret_def accessExpiresIn_def refreshExpiresIn_def
      orElse_def exEnv_def exLibs_def)

lemma exExpiry:
  "getTokenExpiration (now exCtx) (refreshExpiresIn exEnv) = Inr (Date 1700604800000)"
  by (simp add: refreshExpiresIn_def orElse_def exEnv_def exCtx_def getTokenExpiration_def
      matchDuration_def isDigit_def parseInt_def parseNat_def digitVal_def newDate_def
      maxTime_def)

lemma exRefreshTok_fresh:
  "exRefreshTok \<noteq> jwt_encode ''refresh-key''
      \<lparr>claims = [(''userId'', uid), (''tokenId'', tokenId exCtx)],
       iat = now exCtx div 1000, exp = now exCtx div 1000 + 604800000 div 1000\<rparr>"
proof
  assume "exRefreshTok = jwt_encode ''refresh-key''
      \<lparr>claims = [(''userId'', uid), (''tokenId'', tokenId exCtx)],
       iat = now exCtx div 1000, exp = now exCtx div 1000 + 604800000 div 1000\<rparr>"
  then have "iat \<lparr>claims = [(''userId'', ''u1''), (''tokenId'', ''refresh_1699999000000_0.75'')],
        iat = 1699999000, exp = 1700603800\<rparr> =
      iat \<lparr>claims = [(''userId'', uid), (''tokenId'', tokenId exCtx)],
       iat = now exCtx div 1000, exp = now exCtx div 1000 + 604800000 div 1000\<rparr>"
    unfolding exRefreshTok_def by (auto dest!: jwt_encode_inject)
  then show False by (simp add: exCtx_def)
qed

lemma exLogin_succeeds:
  "status (fst (login exLibs exEnv exCtx (exLoginReq ''alice@example.com'' ''pw123456'') exDb)) = 200"
proof -
  have fk: "user_findById exDb (ident exAlice) = Some exAlice"
    by (simp add: user_findById_def exDb_def)
  have fresh: "\<forall>r \<in> set (refreshTokens exDb).
        token r \<noteq> jwt_encode (the (refreshSecret exEnv))
          \<lparr>claims = [(''userId'', ident exAlice), (''tokenId'', tokenId exCtx)],
           iat = now exCtx div 1000, exp = now exCtx div 1000 + 604800000 div 1000\<rparr>"
    using exRefreshTok_fresh[of "ident exAlice"] by (simp add: exDb_def exEnv_facts)
  from issueTokens_succeeds[OF exEnv_facts(1-4) exExpiry fk fresh]
  obtain a rt d' where i: "issueTokens exLibs exEnv exCtx exAlice exDb = Inr (a, rt, d')"
    by blast
  have f: "user_findUnique exDb ''alice@example.com'' = Some exAlice"
    by (simp add: user_findUnique_def exDb_def exAlice_def)
  have pw: "bcryptCompare exLibs ''pw123456'' (password exAlice)" "isActive exAlice"
    by (simp_all add: exLibs_def exAlice_def)
  show ?thesis
    using f pw i
    by (simp add: login_def exLoginReq_def authResponse_def user_findUnique_where_def
        bcrypt_compare_def)
qed

lemma exRegister_succeeds:
  "status (fst (register exLibs exEnv exCtx exRegisterReq exDb)) = 201"
proof -
  let ?u = "\<lparr>ident = ''u2'', email = ''bob@example.com'',
             password = bcryptHash exLibs ''secret99'' 12 (salt exCtx),
             firstName = Some ''Bob'', lastName = Some [], isActive = True,
             createdAt = now exCtx, updatedAt = now exCtx\<rparr>"
  let ?d1 = "exDb\<lparr>users := users exDb @ [?u]\<rparr>"
  have n: "user_findUnique exDb ''bob@example.com'' = None"
    by (simp add: user_findUnique_def exDb_def exAlice_def)
  have c: "user_create exCtx exDb ''bob@example.com''
      (bcryptHash exLibs ''secret99'' 12 (salt exCtx)) (Some ''Bob'') (Some []) = Inr (?u, ?d1)"
    using n by (simp add: user_create_def Let_def user_findById_def exDb_def exAlice_def exCtx_def)
  have fk: "user_findById ?d1 (ident ?u) = Some ?u"
    by (simp add: user_findById_def exDb_def exAlice_def)
  have fresh: "\<forall>r \<in> set (refreshTokens ?d1).
        token r \<noteq> jwt_encode (the (refreshSecret exEnv))
          \<lparr>claims = [(''userId'', ident ?u), (''tokenId'', tokenId exCtx)],
           iat = now exCtx div 1000, exp = now exCtx div 1000 + 604800000 div 1000\<rparr>"
    using exRefreshTok_fresh[of "ident ?u"] by (simp add: exDb_def exEnv_facts)
  from issueTokens_succeeds[OF exEnv_facts(1-4) exExpiry fk fresh]
  obtain a rt d' where i: "issueTokens exLibs exEnv exCtx ?u ?d1 = Inr (a, rt, d')"
    by blast
  show ?thesis
    using n c i
    by (simp add: register_def exRegisterReq_def authResponse_def user_findUnique_where_def
        bcrypt_hash_def user_create_data_def optionalString_def)
qed

theorem user_object_without_password_witness:
  "status (fst (register exLibs exEnv exCtx exRegisterReq exDb)) = 201 \<and>
   (\<exists>u a. u \<in> set (users (snd (register exLibs exEnv exCtx exRegisterReq exDb))) \<and>
          data (body (fst (register exLibs exEnv exCtx exRegisterReq exDb))) =
            Some (JObject [(''user'', userResponse u), (''accessToken'', JString a)])) \<and>
   status (fst (login exLibs exEnv exCtx (exLoginReq ''alice@example.com'' ''pw123456'') exDb)) = 200 \<and>
   (\<exists>u a. u \<in> set (users exDb) \<and>
          data (body (fst (login exLibs exEnv exCtx
                            (exLoginReq ''alice@example.com'' ''pw123456'') exDb))) =
            Some (JObject [(''user'', userResponse u), (''accessToken'', JString a)])) \<and>
   ''password'' \<notin> set (jsonKeys (userResponse exAlice)) \<and>
   jsonKeys (userResponse exAlice) =
     [''id'', ''email'', ''firstName'', ''isActive'', ''createdAt'', ''updatedAt'']"
proof -
  note r = user_object_without_password[of exLibs exEnv exCtx exRegisterReq exDb exAlice
      "password exAlice"]
  note l = user_object_without_password[of exLibs exEnv exCtx
      "exLoginReq ''alice@example.com'' ''pw123456''" exDb exAlice "password exAlice"]
  have r1: "status (fst (register exLibs exEnv exCtx exRegisterReq exDb)) = 201 \<longrightarrow>
      (\<exists>u a. u \<in> set (users (snd (register exLibs exEnv exCtx exRegisterReq exDb))) \<and>
          data (body (fst (register exLibs exEnv exCtx exRegisterReq exDb))) =
            Some (JObject [(''user'', userResponse u), (''accessToken'', JString a)]))"
    using r by (elim conjE)
  have l1: "status (fst (login exLibs exEnv exCtx (exLoginReq ''alice@example.com'' ''pw123456'') exDb)) = 200 \<longrightarrow>
      (\<exists>u a. u \<in> set (users exDb) \<and>
          data (body (fst (login exLibs exEnv exCtx
                            (exLoginReq ''alice@example.com'' ''pw123456'') exDb))) =
            Some (JObject [(''user'', userResponse u), (''accessToken'', JString a)]))"
    using l by (elim conjE)
  have k: "''password'' \<notin> set (jsonKeys (userResponse exAlice))"
    using r by (elim conjE)
  have ks: "jsonKeys (userResponse exAlice) =
     [''id'', ''email'', ''firstName'', ''isActive'', ''createdAt'', ''updatedAt'']"
    by (simp add: userResponse_def optField_def exAlice_def)
  from r1 exRegister_succeeds l1 exLogin_succeeds k ks show ?thesis
    by (intro conjI) (erule (1) mp | assumption)+
qed

section \<open>The handlers keep the rows with their owners\<close>

lemma issueTokens_rowsOwned:
  assumes "rowsOwned d" and "issueTokens L E C u d = Inr (a, rt, d')"
  shows "rowsOwned d' \<and> mintedFor rt (ident u) \<and>
         (\<exists>r \<in> set (refreshTokens d'). token r = rt \<and> userId r = ident u)"
proof -
  from assms(2) obtain ex where
    g: "generateRefreshToken L E (ident u) (tokenId C) (now C) = Inr rt"
    and c: "refreshToken_create d rt (ident u) ex = Inr d'"
    by (auto simp: issueTokens_def split: sum.splits)
  from c obtain t where
    d': "d' = d\<lparr>refreshTokens := refreshTokens d @ [\<lparr>token = rt, userId = ident u, expiresAt = t\<rparr>]\<rparr>"
    by (auto simp: refreshToken_create_def split: jsdate.splits if_splits)
  from g have m: "mintedFor rt (ident u)" by (rule mintedFor_generateRefreshToken)
  with assms(1) d' show ?thesis by (simp add: rowsOwned_def)
qed

lemma user_create_rowsOwned:
  "user_create C d e pw fn ln = Inr (u, d') \<Longrightarrow> rowsOwned d' = rowsOwned d"
  by (auto simp: user_create_def Let_def rowsOwned_def split: if_splits)

lemma login_rowsOwned:
  assumes "rowsOwned d"
  shows "rowsOwned (snd (login L E C req d))"
  using login_result[of L E C req d] assms issueTokens_rowsOwned by fastforce

lemma register_rowsOwned:
  assumes "rowsOwned d"
  shows "rowsOwned (snd (register L E C req d))"
proof -
  from register_result[of L E C req d] consider
    "snd (register L E C req d) = d"
    | e pw fn ln u d1 where "user_create C d e pw fn ln = Inr (u, d1)"
        "snd (register L E C req d) = d1"
    | e pw fn ln u d1 a rt where "user_create C d e pw fn ln = Inr (u, d1)"
        "issueTokens L E C u d1 = Inr (a, rt, snd (register L E C req d))"
    by fastforce
  then show ?thesis
  proof cases
    case 1
    with assms show ?thesis by simp
  next
    case 2
    with user_create_rowsOwned assms show ?thesis by metis
  next
    case 3
    from user_create_rowsOwned[OF 3(1)] assms have "rowsOwned d1" by simp
    from issueTokens_rowsOwned[OF this 3(2)] show ?thesis by simp
  qed
qed

lemma refreshToken_rowsOwned: "rowsOwned d \<Longrightarrow> rowsOwned (snd (refreshToken L E C req d))"
  by (simp add: refreshToken_def split: sum.splits option.splits prod.splits)

lemma logout_rowsOwned: "rowsOwned d \<Longrightarrow> rowsOwned (snd (logout req d))"
  by (simp add: logout_def refreshToken_deleteMany_token_def rowsOwned_def list_all_iff)

lemma logoutAll_rowsOwned: "rowsOwned d \<Longrightarrow> rowsOwned (snd (logoutAll req d))"
  by (simp add: logoutAll_def refreshToken_deleteMany_userId_def rowsOwned_def list_all_iff
      split: option.splits)

end
